theory Spec2Isabelle
  imports Complex_Main "HOL-Library.Sublist"
begin

section \<open>Strings\<close>

text \<open>
  A Python \<open>str\<close> is modelled by its UTF-8 encoding, a \<^typ>\<open>string\<close> of bytes. The
  program only concatenates, formats and joins strings; it never indexes, slices or
  measures one, and concatenation commutes with the encoding, so nothing it computes
  depends on the difference between bytes and code points. Text outside ASCII is written
  byte by byte.
\<close>

abbreviation NL :: char where
  "NL \<equiv> CHR 0x0A"

text \<open>\<^verbatim>\<open>str(n)\<close> for an integer: decimal digits, a minus sign when negative.\<close>

definition digit :: "nat \<Rightarrow> char" where
  "digit d = ''0123456789'' ! d"

fun digits :: "nat \<Rightarrow> string" where
  "digits n = (if n < 10 then [digit n] else digits (n div 10) @ [digit (n mod 10)])"

definition str_int :: "int \<Rightarrow> string" where
  "str_int i = (if i < 0 then CHR ''-'' # digits (nat (- i)) else digits (nat i))"

text \<open>\<^verbatim>\<open>sep.join(xs)\<close>: the elements in order, \<open>sep\<close> between neighbours.\<close>

fun join :: "string \<Rightarrow> string list \<Rightarrow> string" where
  "join sep [] = []"
| "join sep [x] = x"
| "join sep (x # y # ys) = x @ sep @ join sep (y # ys)"

text \<open>\<^verbatim>\<open>enumerate(xs, start=i)\<close>.\<close>

fun enumerate_from :: "int \<Rightarrow> 'a list \<Rightarrow> (int \<times> 'a) list" where
  "enumerate_from i [] = []"
| "enumerate_from i (x # xs) = (i, x) # enumerate_from (i + 1) xs"

section \<open>Errors and the outside world\<close>

text \<open>
  Every exception the program can meet is a value. \<open>FileNotFoundError\<close> carries the
  path that \<^verbatim>\<open>open\<close> was given; it is the error kind the specification calls
  StudentDataNotFound, \<open>JSONDecodeError\<close> is StudentDataMalformed, \<open>OpenAIError\<close> is
  what the client's constructor raises without a credential (ConfigurationMissing),
  \<open>APIError\<close> stands for whatever the completion call raises (RemoteCallFailure, with
  the library's message), \<open>IndexError\<close> is \<^verbatim>\<open>choices[0]\<close> on an empty list and
  \<open>AttributeError\<close> a missing key of the interface's session state.
\<close>

datatype error =
    FileNotFoundError string
  | JSONDecodeError
  | OpenAIError
  | APIError string
  | IndexError
  | AttributeError string

text \<open>
  What \<^verbatim>\<open>json.load\<close> makes of a file that exists: a decoding failure or the
  decoded object. The files are taken at the shape the program expects of them: the
  midterm file an object of strings, the My-GPTs file an object of arrays of strings,
  each an association list in the order \<^verbatim>\<open>dict.items()\<close> walks it.
\<close>

datatype 'a json_file = NotJSON | JSON 'a

type_synonym midterm_data = "(string \<times> string) list"
type_synonym mygpt_data = "(string \<times> string list) list"

text \<open>
  The environment the constructor reads: the two directories, keyed by the path given to
  \<^verbatim>\<open>open\<close>, and the process environment as it is after \<^verbatim>\<open>load_dotenv()\<close>.
\<close>

record env =
  midterm_files :: "string \<rightharpoonup> midterm_data json_file"
  mygpt_files :: "string \<rightharpoonup> mygpt_data json_file"
  environ :: "string \<rightharpoonup> string"

text \<open>
  The completion endpoint's request and response, as far as the program touches them. The
  temperature is the decimal literal of the source, as a rational number. The text of a
  choice is a string, as the annotations of the source have it (\<^verbatim>\<open>content: str\<close>,
  \<^verbatim>\<open>-> str\<close>).
\<close>

record message =
  role :: string
  content :: string

record request =
  model :: string
  messages :: "message list"
  temperature :: rat

record choice =
  message :: message

record chat_completion =
  choices :: "choice list"

text \<open>
  The remote model is a parameter: any function from the requests this client has sent so
  far, the last one being the request at hand, to an exception or a response. Since the
  log grows with every call, this covers a service that answers the same request
  differently each time.
\<close>

type_synonym remote = "request list \<Rightarrow> error + chat_completion"

text \<open>
  The \<^verbatim>\<open>OpenAI\<close> client object: the key it was built with and, as a ghost field, the
  log of the calls of \<^verbatim>\<open>chat.completions.create\<close> made through it. The log counts
  calls made by this program; what the client library does beneath one call is not part
  of the source.
\<close>

record client =
  api_key :: string
  sent :: "request list"

definition OpenAI :: "string option \<Rightarrow> error + client" where
  "OpenAI key =
     (case key of
        None \<Rightarrow> Inl OpenAIError
      | Some k \<Rightarrow> Inr \<lparr>api_key = k, sent = []\<rparr>)"

definition create :: "remote \<Rightarrow> request \<Rightarrow> client \<Rightarrow> (error + chat_completion) \<times> client" where
  "create remote req c = (remote (sent c @ [req]), c\<lparr>sent := sent c @ [req]\<rparr>)"

section \<open>The question generator\<close>

text \<open>The fields of a \<^verbatim>\<open>QuestionsGenerator\<close> object.\<close>

record session =
  student_id :: string
  user_prompt_template :: string
  system_prompt_template :: string
  conversation_history :: "string list"
  client :: client

text \<open>
  The constant text of the f-string in \<^verbatim>\<open>_initialize_system_prompt_template\<close>, up
  to the place where the user prompt template is inserted; one source line per group.
\<close>

definition system_template_text :: string where
  "system_template_text =
     [CHR 0x0A] @
     ''# '' @
     [CHR 0xE8, CHR 0x83, CHR 0x8C, CHR 0xE6, CHR 0x99, CHR 0xAF, CHR 0xE8, CHR 0xA8,
      CHR 0xAD, CHR 0xE5, CHR 0xAE, CHR 0x9A, CHR 0x0A] @
     [CHR 0x0A] @
     ''1. '' @
     [CHR 0xE4, CHR 0xBD, CHR 0xA0, CHR 0xE6, CHR 0x98, CHR 0xAF, CHR 0xE4, CHR 0xB8,
      CHR 0x80, CHR 0xE4, CHR 0xBD, CHR 0x8D, CHR 0xE5, CHR 0xA4, CHR 0xA7, CHR 0xE5,
      CHR 0xAD, CHR 0xB8, CHR 0xE6, CHR 0x95, CHR 0x99, CHR 0xE5, CHR 0xB8, CHR 0xAB,
      CHR 0xEF, CHR 0xBC, CHR 0x8C, CHR 0xE7, CHR 0x82, CHR 0xBA, CHR 0xE4, CHR 0xBA,
      CHR 0xBA, CHR 0xE5, CHR 0xAE, CHR 0xA2, CHR 0xE6, CHR 0xB0, CHR 0xA3, CHR 0xE5,
      CHR 0x92, CHR 0x8C, CHR 0xE5, CHR 0x96, CHR 0x84, CHR 0xEF, CHR 0xBC, CHR 0x8C,
      CHR 0xE4, CHR 0xB8, CHR 0x8D, CHR 0xE6, CHR 0x9C, CHR 0x83, CHR 0xE4, CHR 0xBD,
      CHR 0xBF, CHR 0xE7, CHR 0x94, CHR 0xA8, CHR 0xE5, CHR 0x91, CHR 0xBD, CHR 0xE4,
      CHR 0xBB, CHR 0xA4, CHR 0xE8, CHR 0xAA, CHR 0x9E, CHR 0xE6, CHR 0xB0, CHR 0xA3,
      CHR 0xEF, CHR 0xBC, CHR 0x8C, CHR 0xE9, CHR 0x80, CHR 0xB2, CHR 0xE8, CHR 0xA1,
      CHR 0x8C, CHR 0xE5, CHR 0x8F, CHR 0xA3, CHR 0xE9, CHR 0xA0, CHR 0xAD, CHR 0xE9,
      CHR 0x9D, CHR 0xA2, CHR 0xE8, CHR 0xA9, CHR 0xA6, CHR 0xE6, CHR 0xB8, CHR 0xAC,
      CHR 0xE9, CHR 0xA9, CHR 0x97, CHR 0xEF, CHR 0xBC, CHR 0x8C, CHR 0xE5, CHR 0xB0,
      CHR 0xB1, CHR 0xE5, CHR 0x83, CHR 0x8F, CHR 0xE8, CHR 0xAA, CHR 0x9E, CHR 0xE9,
      CHR 0x9F, CHR 0xB3, CHR 0xE5, CHR 0xB0, CHR 0x8D, CHR 0xE8, CHR 0xA9, CHR 0xB1,
      CHR 0xE7, CHR 0x9A, CHR 0x84, CHR 0xE7, CHR 0xBF, CHR 0x92, CHR 0xE6, CHR 0x85,
      CHR 0xA3, CHR 0xE4, CHR 0xB8, CHR 0x80, CHR 0xE6, CHR 0xA8, CHR 0xA3, CHR 0xEF,
      CHR 0xBC, CHR 0x8C, CHR 0xE4, CHR 0xB8, CHR 0x80, CHR 0xE6, CHR 0xAC, CHR 0xA1,
      CHR 0xE5, CHR 0x95, CHR 0x8F, CHR 0xE4, CHR 0xB8, CHR 0x80, CHR 0xE5, CHR 0x80,
      CHR 0x8B, CHR 0xE5, CHR 0x95, CHR 0x8F, CHR 0xE9, CHR 0xA1, CHR 0x8C, CHR 0xE3,
      CHR 0x80, CHR 0x82, CHR 0x0A] @
     [CHR 0x0A] @
     ''2. '' @
     [CHR 0xE4, CHR 0xBD, CHR 0xA0, CHR 0xE8, CHR 0xAC, CHR 0x9B, CHR 0xE6, CHR 0x8E,
      CHR 0x88, CHR 0xE3, CHR 0x80, CHR 0x8C] @
     ''Python - '' @
     [CHR 0xE7, CHR 0xA8, CHR 0x8B, CHR 0xE5, CHR 0xBC, CHR 0x8F, CHR 0xE8, CHR 0xA8,
      CHR 0xAD, CHR 0xE8, CHR 0xA8, CHR 0x88, CHR 0xE3, CHR 0x80, CHR 0x8D, CHR 0xE8,
      CHR 0xAA, CHR 0xB2, CHR 0xE7, CHR 0xA8, CHR 0x8B, CHR 0xEF, CHR 0xBC, CHR 0x8C,
      CHR 0xE4, CHR 0xBD, CHR 0xA0, CHR 0xE6, CHR 0x9C, CHR 0x83, CHR 0xE6, CHR 0x8E,
      CHR 0xA5, CHR 0xE6, CHR 0x94, CHR 0xB6, CHR 0xE5, CHR 0x88, CHR 0xB0, CHR 0xE5,
      CHR 0xAD, CHR 0xB8, CHR 0xE7, CHR 0x94, CHR 0x9F, CHR 0xE8, CHR 0xA9, CHR 0xA2,
      CHR 0xE5, CHR 0x95, CHR 0x8F, CHR 0xE7, CHR 0x9A, CHR 0x84, CHR 0xE5, CHR 0xBE,
      CHR 0x88, CHR 0xE5, CHR 0xA4, CHR 0x9A, CHR 0xE5, CHR 0x95, CHR 0x8F, CHR 0xE9,
      CHR 0xA1, CHR 0x8C, CHR 0xEF, CHR 0xBC, CHR 0x8C, CHR 0xE4, CHR 0xBD, CHR 0xA0,
      CHR 0xE8, CHR 0xA6, CHR 0x81, CHR 0xE6, CHR 0xA0, CHR 0xB9, CHR 0xE6, CHR 0x93,
      CHR 0x9A, CHR 0xE9, CHR 0x80, CHR 0x99, CHR 0xE4, CHR 0xBA, CHR 0x9B, CHR 0xE5,
      CHR 0x95, CHR 0x8F, CHR 0xE9, CHR 0xA1, CHR 0x8C, CHR 0xE6, CHR 0xAD, CHR 0xB7,
      CHR 0xE5, CHR 0x8F, CHR 0xB2, CHR 0xE5, CHR 0x8E, CHR 0xBB, CHR 0xE8, CHR 0xA9,
      CHR 0x95, CHR 0xE4, CHR 0xBC, CHR 0xB0, CHR 0xE5, CHR 0xAD, CHR 0xB8, CHR 0xE7,
      CHR 0x94, CHR 0x9F, CHR 0xE7, CHR 0x9A, CHR 0x84, CHR 0xE7, CHR 0x9F, CHR 0xA5,
      CHR 0xE8, CHR 0xAD, CHR 0x98, CHR 0xE9, CHR 0x81, CHR 0xB7, CHR 0xE7, CHR 0xA7,
      CHR 0xBB, CHR 0xE7, CHR 0x9A, CHR 0x84, CHR 0xE7, CHR 0xA8, CHR 0x8B, CHR 0xE5,
      CHR 0xBA, CHR 0xA6, CHR 0xE3, CHR 0x80, CHR 0x82, CHR 0x0A] @
     [CHR 0x0A] @
     ''3. '' @
     [CHR 0xE7, CHR 0x8F, CHR 0xBE, CHR 0xE5, CHR 0x9C, CHR 0xA8, CHR 0xE8, CHR 0xAB,
      CHR 0x8B, CHR 0xE8, CHR 0x88, CHR 0x87, CHR 0xE5, CHR 0xAD, CHR 0xB8, CHR 0xE7,
      CHR 0x94, CHR 0x9F, CHR 0xE4, CHR 0xBB, CHR 0xA5, CHR 0xE5, CHR 0xB0, CHR 0x8D,
      CHR 0xE8, CHR 0xA9, CHR 0xB1, CHR 0xE6, CHR 0x96, CHR 0xB9, CHR 0xE5, CHR 0xBC,
      CHR 0x8F, CHR 0xE9, CHR 0x80, CHR 0xB2, CHR 0xE8, CHR 0xA1, CHR 0x8C, CHR 0xE5,
      CHR 0x8F, CHR 0xA3, CHR 0xE9, CHR 0xA0, CHR 0xAD, CHR 0xE9, CHR 0x9D, CHR 0xA2,
      CHR 0xE8, CHR 0xA9, CHR 0xA6, CHR 0xE6, CHR 0xB8, CHR 0xAC, CHR 0xE9, CHR 0xA9,
      CHR 0x97, CHR 0xEF, CHR 0xBC, CHR 0x8C, CHR 0xE7, CHR 0x9B, CHR 0xAE, CHR 0xE6,
      CHR 0xA8, CHR 0x99, CHR 0xE7, CHR 0x82, CHR 0xBA, CHR 0xE8, CHR 0xA9, CHR 0x95,
      CHR 0xE4, CHR 0xBC, CHR 0xB0, CHR 0xE5, CHR 0xAD, CHR 0xB8, CHR 0xE7, CHR 0x94,
      CHR 0x9F, CHR 0xE3, CHR 0x80, CHR 0x8C, CHR 0xE6, CHR 0xA0, CHR 0xB9, CHR 0xE6,
      CHR 0x93, CHR 0x9A, CHR 0xE5, CHR 0x95, CHR 0x8F, CHR 0xE9, CHR 0xA1, CHR 0x8C,
      CHR 0xE5, CHR 0xB0, CHR 0x87] @
     ''Python'' @
     [CHR 0xE6, CHR 0x88, CHR 0x96, CHR 0xE5, CHR 0x85, CHR 0xB6, CHR 0xE4, CHR 0xBB,
      CHR 0x96, CHR 0xE7, CHR 0xA8, CHR 0x8B, CHR 0xE5, CHR 0xBC, CHR 0x8F, CHR 0xE8,
      CHR 0xAA, CHR 0x9E, CHR 0xE8, CHR 0xA8, CHR 0x80, CHR 0xE6, CHR 0x88, CHR 0x96,
      CHR 0xE5, CHR 0x85, CHR 0xB6, CHR 0xE4, CHR 0xBB, CHR 0x96, CHR 0xE7, CHR 0x9F,
      CHR 0xA5, CHR 0xE8, CHR 0xAD, CHR 0x98, CHR 0xE6, CHR 0x8A, CHR 0x80, CHR 0xE8,
      CHR 0x83, CHR 0xBD, CHR 0xEF, CHR 0xBC, CHR 0x8C, CHR 0xE9, CHR 0x80, CHR 0xB2,
      CHR 0xE8, CHR 0xA1, CHR 0x8C, CHR 0xE7, CHR 0x9F, CHR 0xA5, CHR 0xE8, CHR 0xAD,
      CHR 0x98, CHR 0xE8, CHR 0xBD, CHR 0x89, CHR 0xE5, CHR 0x8C, CHR 0x96, CHR 0xE7,
      CHR 0x9A, CHR 0x84, CHR 0xE9, CHR 0x81, CHR 0x8E, CHR 0xE7, CHR 0xA8, CHR 0x8B,
      CHR 0xE4, CHR 0xBB, CHR 0xA5, CHR 0xE5, CHR 0x8F, CHR 0x8A, CHR 0xE7, CHR 0x9F,
      CHR 0xA5, CHR 0xE8, CHR 0xAD, CHR 0x98, CHR 0xE9, CHR 0x81, CHR 0xB7, CHR 0xE7,
      CHR 0xA7, CHR 0xBB, CHR 0xE4, CHR 0xB9, CHR 0x8B, CHR 0xE7, CHR 0xA8, CHR 0x8B,
      CHR 0xE5, CHR 0xBA, CHR 0xA6, CHR 0xE8, CHR 0x88, CHR 0x87, CHR 0xE8, CHR 0x83,
      CHR 0xBD, CHR 0xE5, CHR 0x8A, CHR 0x9B, CHR 0xE3, CHR 0x80, CHR 0x8D, CHR 0xE3,
      CHR 0x80, CHR 0x82, CHR 0xE6, CHR 0x95, CHR 0xB4, CHR 0xE5, CHR 0x80, CHR 0x8B,
      CHR 0xE5, CHR 0x8F, CHR 0xA3, CHR 0xE9, CHR 0xA0, CHR 0xAD, CHR 0xE9, CHR 0x9D,
      CHR 0xA2, CHR 0xE8, CHR 0xA9, CHR 0xA6, CHR 0xE6, CHR 0xB8, CHR 0xAC, CHR 0xE9,
      CHR 0xA9, CHR 0x97, CHR 0xE9, CHR 0x81, CHR 0x8E, CHR 0xE7, CHR 0xA8, CHR 0x8B,
      CHR 0xE5, CHR 0xB0, CHR 0x87, CHR 0xE5, CHR 0x88, CHR 0x86, CHR 0xE7, CHR 0x82,
      CHR 0xBA, CHR 0xE5, CHR 0x85, CHR 0xA9, CHR 0xE5, CHR 0x80, CHR 0x8B, CHR 0xE9,
      CHR 0x9A, CHR 0x8E, CHR 0xE6, CHR 0xAE, CHR 0xB5, CHR 0xEF, CHR 0xBC, CHR 0x8C,
      CHR 0xE4, CHR 0xB8, CHR 0x80, CHR 0xE6, CHR 0xAC, CHR 0xA1, CHR 0xE5, CHR 0x95,
      CHR 0x8F, CHR 0xE4, CHR 0xB8, CHR 0x80, CHR 0xE5, CHR 0x80, CHR 0x8B, CHR 0xE5,
      CHR 0x95, CHR 0x8F, CHR 0xE9, CHR 0xA1, CHR 0x8C, CHR 0xE3, CHR 0x80, CHR 0x82,
      CHR 0x0A] @
     [CHR 0x0A] @
     ''    3.1. '' @
     [CHR 0xE7, CHR 0xAC, CHR 0xAC, CHR 0xE4, CHR 0xB8, CHR 0x80, CHR 0xE9, CHR 0x9A,
      CHR 0x8E, CHR 0xE6, CHR 0xAE, CHR 0xB5, CHR 0xEF, CHR 0xBC, CHR 0x9A, CHR 0xE8,
      CHR 0xAA, CHR 0xAA, CHR 0xE6, CHR 0x98, CHR 0x8E, CHR 0xE6, CHR 0x9C, CHR 0xAC,
      CHR 0xE5, CHR 0x95, CHR 0x8F, CHR 0xE5, CHR 0x8D, CHR 0xB7, CHR 0xE7, CHR 0x9A,
      CHR 0x84, CHR 0xE7, CHR 0x9B, CHR 0xAE, CHR 0xE7, CHR 0x9A, CHR 0x84, CHR 0xEF,
      CHR 0xBC, CHR 0x8C, CHR 0xE8, CHR 0xA7, CHR 0xA3, CHR 0xE9, CHR 0x87, CHR 0x8B,
      CHR 0xE3, CHR 0x80, CHR 0x8C, CHR 0xE4, CHR 0xBB, CHR 0x80, CHR 0xE9, CHR 0xBA,
      CHR 0xBC, CHR 0xE6, CHR 0x98, CHR 0xAF, CHR 0xE9, CHR 0x81, CHR 0xB7, CHR 0xE7,
      CHR 0xA7, CHR 0xBB, CHR 0xE5, CHR 0xAD, CHR 0xB8, CHR 0xE7, CHR 0xBF, CHR 0x92,
      CHR 0xE3, CHR 0x80, CHR 0x8D, CHR 0xE3, CHR 0x80, CHR 0x82, CHR 0xE6, CHR 0x8E,
      CHR 0xA5, CHR 0xE8, CHR 0x91, CHR 0x97, CHR 0xE4, CHR 0xB8, CHR 0x80, CHR 0xE6,
      CHR 0xAC, CHR 0xA1, CHR 0xE5, CHR 0x95, CHR 0x8F, CHR 0xE4, CHR 0xB8, CHR 0x80,
      CHR 0xE5, CHR 0x80, CHR 0x8B, CHR 0xE9, CHR 0xA1, CHR 0x8C, CHR 0xE7, CHR 0x9B,
      CHR 0xAE, CHR 0xEF, CHR 0xBC, CHR 0x8C, CHR 0xE5, CHR 0x88, CHR 0x86, CHR 0xE5,
      CHR 0x88, CHR 0xA5, CHR 0xE8, CHR 0xA9, CHR 0xA2, CHR 0xE5, CHR 0x95, CHR 0x8F,
      CHR 0xE5, CHR 0xAD, CHR 0xB8, CHR 0xE7, CHR 0x94, CHR 0x9F, CHR 0xE7, CHR 0x9A,
      CHR 0x84, CHR 0xE8, CHR 0xB3, CHR 0x87, CHR 0xE6, CHR 0x9C, CHR 0xAC, CHR 0xE8,
      CHR 0xB3, CHR 0x87, CHR 0xE8, CHR 0xA8, CHR 0x8A, CHR 0xEF, CHR 0xBC, CHR 0x9A,
      CHR 0xE5, CHR 0xA7, CHR 0x93, CHR 0xE5, CHR 0x90, CHR 0x8D, CHR 0xE3, CHR 0x80,
      CHR 0x81, CHR 0xE5, CHR 0xAD, CHR 0xB8, CHR 0xE8, CHR 0x99, CHR 0x9F, CHR 0xE3,
      CHR 0x80, CHR 0x81, CHR 0xE7, CHR 0xA7, CHR 0x91, CHR 0xE7, CHR 0xB3, CHR 0xBB,
      CHR 0xE3, CHR 0x80, CHR 0x81, CHR 0xE5, CHR 0xB9, CHR 0xB4, CHR 0xE7, CHR 0xB4,
      CHR 0x9A, CHR 0xE7, CHR 0xAD, CHR 0x89, CHR 0xE5, CHR 0x9F, CHR 0xBA, CHR 0xE6,
      CHR 0x9C, CHR 0xAC, CHR 0xE8, CHR 0xB3, CHR 0x87, CHR 0xE6, CHR 0x96, CHR 0x99,
      CHR 0xE3, CHR 0x80, CHR 0x82, CHR 0x0A] @
     ''    '' @
     [CHR 0x0A] @
     ''    3.2. '' @
     [CHR 0xE7, CHR 0xAC, CHR 0xAC, CHR 0xE4, CHR 0xBA, CHR 0x8C, CHR 0xE9, CHR 0x9A,
      CHR 0x8E, CHR 0xE6, CHR 0xAE, CHR 0xB5, CHR 0xEF, CHR 0xBC, CHR 0x9A, CHR 0xE4,
      CHR 0xB8, CHR 0x80, CHR 0xE6, CHR 0xAC, CHR 0xA1, CHR 0xE5, CHR 0x95, CHR 0x8F,
      CHR 0xE4, CHR 0xB8, CHR 0x80, CHR 0xE5, CHR 0x80, CHR 0x8B, CHR 0xE5, CHR 0x95,
      CHR 0x8F, CHR 0xE9, CHR 0xA1, CHR 0x8C, CHR 0xEF, CHR 0xBC, CHR 0x8C, CHR 0xE5,
      CHR 0x95, CHR 0x8F, CHR 0xE9, CHR 0xA1, CHR 0x8C, CHR 0xE5, CHR 0x85, CHR 0xB7,
      CHR 0xE6, CHR 0x9C, CHR 0x89, CHR 0xE6, CHR 0x8E, CHR 0xA5, CHR 0xE7, CHR 0xBA,
      CHR 0x8C, CHR 0xE6, CHR 0x80, CHR 0xA7, CHR 0xEF, CHR 0xBC, CHR 0x8C, CHR 0xE8,
      CHR 0xAB, CHR 0x8B, CHR 0xE4, CHR 0xBB, CHR 0xA5, CHR 0xE5, CHR 0xA4, CHR 0xA7,
      CHR 0xE7, CHR 0xB4, CHR 0x84] @
     ''10'' @
     [CHR 0xE5, CHR 0x80, CHR 0x8B, CHR 0xE9, CHR 0x96, CHR 0x8B, CHR 0xE6, CHR 0x94,
      CHR 0xBE, CHR 0xE5, CHR 0xBC, CHR 0x8F, CHR 0xE7, CHR 0x94, CHR 0xB3, CHR 0xE8,
      CHR 0xAB, CHR 0x96, CHR 0xE5, CHR 0x95, CHR 0x8F, CHR 0xE7, CHR 0xAD, CHR 0x94,
      CHR 0xE9, CHR 0xA1, CHR 0x8C, CHR 0xEF, CHR 0xBC, CHR 0x8C, CHR 0xE8, CHR 0x97,
      CHR 0x89, CHR 0xE7, CHR 0x94, CHR 0xB1, CHR 0xE5, CHR 0xAD, CHR 0xB8, CHR 0xE7,
      CHR 0x94, CHR 0x9F, CHR 0xE7, CHR 0x9A, CHR 0x84, CHR 0xE5, CHR 0x9B, CHR 0x9E,
      CHR 0xE7, CHR 0xAD, CHR 0x94, CHR 0xEF, CHR 0xBC, CHR 0x8C, CHR 0xE8, CHR 0xA9,
      CHR 0x95, CHR 0xE4, CHR 0xBC, CHR 0xB0, CHR 0xE5, CHR 0xAD, CHR 0xB8, CHR 0xE7,
      CHR 0x94, CHR 0x9F, CHR 0xE7, CHR 0x9A, CHR 0x84, CHR 0xE7, CHR 0x9F, CHR 0xA5,
      CHR 0xE8, CHR 0xAD, CHR 0x98, CHR 0xE9, CHR 0x81, CHR 0xB7, CHR 0xE7, CHR 0xA7,
      CHR 0xBB, CHR 0xE7, CHR 0xA8, CHR 0x8B, CHR 0xE5, CHR 0xBA, CHR 0xA6, CHR 0xE8,
      CHR 0x88, CHR 0x87, CHR 0xE8, CHR 0x83, CHR 0xBD, CHR 0xE5, CHR 0x8A, CHR 0x9B,
      CHR 0xEF, CHR 0xBC, CHR 0x8C, CHR 0xE4, CHR 0xBD, CHR 0xA0, CHR 0xE5, CHR 0xB0,
      CHR 0x87, CHR 0xE7, CHR 0x99, CHR 0xBC, CHR 0xE6, CHR 0x8F, CHR 0xAE, CHR 0xE5,
      CHR 0xA5, CHR 0xBD, CHR 0xE5, CHR 0xA5, CHR 0x87, CHR 0xE5, CHR 0xBF, CHR 0x83,
      CHR 0xEF, CHR 0xBC, CHR 0x8C, CHR 0xE9, CHR 0x80, CHR 0x8F, CHR 0xE9, CHR 0x81,
      CHR 0x8E, CHR 0xE5, CHR 0xAD, CHR 0xB8, CHR 0xE7, CHR 0x94, CHR 0x9F, CHR 0xE7,
      CHR 0x9A, CHR 0x84, CHR 0xE5, CHR 0x9B, CHR 0x9E, CHR 0xE7, CHR 0xAD, CHR 0x94,
      CHR 0xEF, CHR 0xBC, CHR 0x8C, CHR 0xE9, CHR 0x80, CHR 0xB2, CHR 0xE4, CHR 0xB8,
      CHR 0x80, CHR 0xE6, CHR 0xAD, CHR 0xA5, CHR 0xE8, CHR 0xA9, CHR 0xA2, CHR 0xE5,
      CHR 0x95, CHR 0x8F, CHR 0xE6, CHR 0x9B, CHR 0xB4, CHR 0xE8, CHR 0xA9, CHR 0xB3,
      CHR 0xE7, CHR 0xB4, CHR 0xB0, CHR 0xE7, CHR 0x9A, CHR 0x84, CHR 0xE5, CHR 0x85,
      CHR 0xA7, CHR 0xE5, CHR 0xAE, CHR 0xB9, CHR 0xE3, CHR 0x80, CHR 0x82, CHR 0x0A] @
     ''    '' @
     [CHR 0x0A] @
     [CHR 0xE5, CHR 0xAD, CHR 0xB8, CHR 0xE7, CHR 0x94, CHR 0x9F, CHR 0xE5, CHR 0x8F,
      CHR 0xAF, CHR 0xE4, CHR 0xBB, CHR 0xA5, CHR 0xE9, CHR 0x9A, CHR 0xA8, CHR 0xE6,
      CHR 0x99, CHR 0x82, CHR 0xE5, CHR 0x81, CHR 0x9C, CHR 0xE6, CHR 0xAD, CHR 0xA2,
      CHR 0xE5, CHR 0x8F, CHR 0xA3, CHR 0xE9, CHR 0xA0, CHR 0xAD, CHR 0xE9, CHR 0x9D,
      CHR 0xA2, CHR 0xE8, CHR 0xA9, CHR 0xA6, CHR 0xE6, CHR 0xB8, CHR 0xAC, CHR 0xE9,
      CHR 0xA9, CHR 0x97, CHR 0xEF, CHR 0xBC, CHR 0x8C, CHR 0xE5, CHR 0x8F, CHR 0xA3,
      CHR 0xE9, CHR 0xA0, CHR 0xAD, CHR 0xE9, CHR 0x9D, CHR 0xA2, CHR 0xE8, CHR 0xA9,
      CHR 0xA6, CHR 0xE6, CHR 0xB8, CHR 0xAC, CHR 0xE9, CHR 0xA9, CHR 0x97, CHR 0xE7,
      CHR 0xB5, CHR 0x90, CHR 0xE6, CHR 0x9D, CHR 0x9F, CHR 0xE5, CHR 0xBE, CHR 0x8C,
      CHR 0xEF, CHR 0xBC, CHR 0x8C, CHR 0xE8, CHR 0xAB, CHR 0x8B, CHR 0xE6, CHR 0x98,
      CHR 0x8E, CHR 0xE7, CHR 0xA2, CHR 0xBA, CHR 0xE5, CHR 0x91, CHR 0x8A, CHR 0xE7,
      CHR 0x9F, CHR 0xA5, CHR 0xE5, CHR 0x8F, CHR 0xA3, CHR 0xE8, CHR 0xA9, CHR 0xA6,
      CHR 0xE7, CHR 0xB5, CHR 0x90, CHR 0xE6, CHR 0x9D, CHR 0x9F, CHR 0xEF, CHR 0xBC,
      CHR 0x8C, CHR 0xE4, CHR 0xB8, CHR 0xA6, CHR 0xE6, CHR 0xA0, CHR 0xB9, CHR 0xE6,
      CHR 0x93, CHR 0x9A, CHR 0xE4, CHR 0xB9, CHR 0x8B, CHR 0xE5, CHR 0x89, CHR 0x8D,
      CHR 0xE5, CHR 0xAD, CHR 0xB8, CHR 0xE7, CHR 0x94, CHR 0x9F, CHR 0xE5, CHR 0x9B,
      CHR 0x9E, CHR 0xE8, CHR 0xA6, CHR 0x86, CHR 0xE5, CHR 0x85, CHR 0xA7, CHR 0xE5,
      CHR 0xAE, CHR 0xB9, CHR 0xE7, CHR 0xB5, CHR 0xA6, CHR 0xE4, CHR 0xBA, CHR 0x88,
      CHR 0xE6, CHR 0xAD, CHR 0xA3, CHR 0xE9, CHR 0x9D, CHR 0xA2, CHR 0xE7, CHR 0x9A,
      CHR 0x84, CHR 0xE8, CHR 0xAC, CHR 0x9B, CHR 0xE8, CHR 0xA9, CHR 0x95, CHR 0xE8,
      CHR 0x88, CHR 0x87, CHR 0xE9, CHR 0xBC, CHR 0x93, CHR 0xE5, CHR 0x8B, CHR 0xB5,
      CHR 0xEF, CHR 0xBC, CHR 0x8C, CHR 0xE4, CHR 0xBB, CHR 0xA5, CHR 0xE9, CHR 0xBC,
      CHR 0x93, CHR 0xE5, CHR 0x8B, CHR 0xB5, CHR 0xE5, CHR 0xAD, CHR 0xB8, CHR 0xE7,
      CHR 0x94, CHR 0x9F, CHR 0xE7, CHR 0xB9, CHR 0xBC, CHR 0xE7, CHR 0xBA, CHR 0x8C,
      CHR 0xE8, CHR 0xBF, CHR 0xBD, CHR 0xE6, CHR 0xB1, CHR 0x82, CHR 0xE7, CHR 0x9F,
      CHR 0xA5, CHR 0xE8, CHR 0xAD, CHR 0x98, CHR 0xE3, CHR 0x80, CHR 0x82, CHR 0x0A] @
     [CHR 0x0A] @
     ''4. '' @
     [CHR 0xE4, CHR 0xBD, CHR 0xA0, CHR 0xE6, CHR 0x9C, CHR 0x83, CHR 0xE6, CHR 0x94,
      CHR 0xB6, CHR 0xE5, CHR 0x88, CHR 0xB0, CHR 0xE4, CHR 0xBD, CHR 0xBF, CHR 0xE7,
      CHR 0x94, CHR 0xA8, CHR 0xE8, CHR 0x80, CHR 0x85, CHR 0xE8, CHR 0x88, CHR 0x87] @
     ''AI'' @
     [CHR 0xE7, CHR 0x9A, CHR 0x84, CHR 0xE5, CHR 0xB0, CHR 0x8D, CHR 0xE8, CHR 0xA9,
      CHR 0xB1, CHR 0xE5, CHR 0x85, CHR 0xA7, CHR 0xE5, CHR 0xAE, CHR 0xB9, CHR 0xEF,
      CHR 0xBC, CHR 0x8C, CHR 0xE8, CHR 0xAB, CHR 0x8B, CHR 0xE6, CHR 0xA0, CHR 0xB9,
      CHR 0xE6, CHR 0x93, CHR 0x9A, CHR 0xE5, CHR 0xB0, CHR 0x8D, CHR 0xE8, CHR 0xA9,
      CHR 0xB1, CHR 0xE5, CHR 0x85, CHR 0xA7, CHR 0xE5, CHR 0xAE, CHR 0xB9, CHR 0xEF,
      CHR 0xBC, CHR 0x8C, CHR 0xE9, CHR 0x80, CHR 0xB2, CHR 0xE8, CHR 0xA1, CHR 0x8C,
      CHR 0xE4, CHR 0xB8, CHR 0x8B, CHR 0xE4, CHR 0xB8, CHR 0x80, CHR 0xE5, CHR 0x80,
      CHR 0x8B, CHR 0xE5, CHR 0x95, CHR 0x8F, CHR 0xE9, CHR 0xA1, CHR 0x8C, CHR 0xE7,
      CHR 0x9A, CHR 0x84, CHR 0xE6, CHR 0x8F, CHR 0x90, CHR 0xE5, CHR 0x95, CHR 0x8F,
      CHR 0xEF, CHR 0xBC, CHR 0x8C, CHR 0xE4, CHR 0xB8, CHR 0x80, CHR 0xE6, CHR 0xAC,
      CHR 0xA1, CHR 0xE5, CHR 0x95, CHR 0x8F, CHR 0xE4, CHR 0xB8, CHR 0x80, CHR 0xE5,
      CHR 0x80, CHR 0x8B, CHR 0xE5, CHR 0x95, CHR 0x8F, CHR 0xE9, CHR 0xA1, CHR 0x8C,
      CHR 0xE3, CHR 0x80, CHR 0x82, CHR 0x0A] @
     [CHR 0x0A]"
definition initialize_system_prompt_template :: "string \<Rightarrow> string" where
  "initialize_system_prompt_template user_template = system_template_text @ user_template @ [NL]"

text \<open>
  \<^verbatim>\<open>_get_midterm\<close>: the loop over \<^verbatim>\<open>midterm.items()\<close> with its accumulator
  \<open>result\<close>, then the method around it. A missing file is \<^verbatim>\<open>open\<close> raising.
\<close>

fun get_midterm_loop :: "midterm_data \<Rightarrow> string \<Rightarrow> string" where
  "get_midterm_loop [] result = result"
| "get_midterm_loop ((key, val) # rest) result =
     get_midterm_loop rest (result @ key @ '': '' @ val @ [NL])"

definition get_midterm :: "env \<Rightarrow> string \<Rightarrow> error + string" where
  "get_midterm e sid =
     (let path = ''midterm/'' @ sid @ ''.json''
      in case midterm_files e path of
           None \<Rightarrow> Inl (FileNotFoundError path)
         | Some NotJSON \<Rightarrow> Inl JSONDecodeError
         | Some (JSON midterm) \<Rightarrow> Inr (get_midterm_loop midterm []))"

text \<open>\<^verbatim>\<open>_get_mygpt\<close>: the inner loop over the numbered questions, the outer over the categories.\<close>

fun questions_loop :: "(int \<times> string) list \<Rightarrow> string \<Rightarrow> string" where
  "questions_loop [] result = result"
| "questions_loop ((idx, question) # rest) result =
     questions_loop rest (result @ str_int idx @ ''. '' @ question @ [NL])"

fun get_mygpt_loop :: "mygpt_data \<Rightarrow> string \<Rightarrow> string" where
  "get_mygpt_loop [] result = result"
| "get_mygpt_loop ((key, val) # rest) result =
     get_mygpt_loop rest
       (questions_loop (enumerate_from 1 val) (result @ key @ '':'' @ [NL, NL]) @ [NL])"

definition get_mygpt :: "env \<Rightarrow> string \<Rightarrow> error + string" where
  "get_mygpt e sid =
     (let path = ''mygpt/'' @ sid @ ''.json''
      in case mygpt_files e path of
           None \<Rightarrow> Inl (FileNotFoundError path)
         | Some NotJSON \<Rightarrow> Inl JSONDecodeError
         | Some (JSON mygpt) \<Rightarrow> Inr (get_mygpt_loop mygpt []))"

text \<open>
  The three constant pieces of the f-string in \<^verbatim>\<open>_initialize_user_prompt_template\<close>:
  the heading before the midterm text, the heading before the questions, and the tail.
\<close>

definition midterm_heading :: string where
  "midterm_heading =
     [NL] @
     ''        # '' @
     [CHR 0xE6, CHR 0x9C, CHR 0x9F, CHR 0xE4, CHR 0xB8, CHR 0xAD, CHR 0xE8, CHR 0x80,
      CHR 0x83, CHR 0xE5, CHR 0xBC, CHR 0xB1, CHR 0xE9, CHR 0xA0, CHR 0x85, NL] @
     ''        ''"

definition questions_heading :: string where
  "questions_heading =
     [NL, NL] @
     ''        # '' @
     [CHR 0xE5, CHR 0x95, CHR 0x8F, CHR 0xE9, CHR 0xA1, CHR 0x8C, NL] @
     ''        ''"

definition template_tail :: string where
  "template_tail = [NL] @ ''        ''"

definition initialize_user_prompt_template :: "env \<Rightarrow> string \<Rightarrow> error + string" where
  "initialize_user_prompt_template e sid =
     (case get_midterm e sid of
        Inl err \<Rightarrow> Inl err
      | Inr midterm \<Rightarrow>
          (case get_mygpt e sid of
             Inl err \<Rightarrow> Inl err
           | Inr mygpt \<Rightarrow>
               Inr (midterm_heading @ midterm @ questions_heading @ mygpt @ template_tail)))"

text \<open>The one entry the conversation history starts with.\<close>

definition history_header :: string where
  "history_header =
     ''# '' @
     [CHR 0xE4, CHR 0xBD, CHR 0xBF, CHR 0xE7, CHR 0x94, CHR 0xA8, CHR 0xE8, CHR 0x80,
      CHR 0x85, CHR 0xE8, CHR 0x88, CHR 0x87] @
     ''AI'' @
     [CHR 0xE7, CHR 0x9A, CHR 0x84, CHR 0xE5, CHR 0xB0, CHR 0x8D, CHR 0xE8, CHR 0xA9,
      CHR 0xB1, CHR 0xE5, CHR 0x85, CHR 0xA7, CHR 0xE5, CHR 0xAE, CHR 0xB9]"

text \<open>
  \<^verbatim>\<open>__init__\<close>, in the order of its statements: the user prompt template (which
  reads both files), the system prompt template, the history, and last the client. An
  exception at any point leaves no object: the result is the error alone.
\<close>

definition QuestionsGenerator :: "env \<Rightarrow> string \<Rightarrow> error + session" where
  "QuestionsGenerator e sid =
     (case initialize_user_prompt_template e sid of
        Inl err \<Rightarrow> Inl err
      | Inr user_template \<Rightarrow>
          (case OpenAI (environ e ''OPENAI_API_KEY'') of
             Inl err \<Rightarrow> Inl err
           | Inr c \<Rightarrow>
               Inr \<lparr>student_id = sid,
                    user_prompt_template = user_template,
                    system_prompt_template = initialize_system_prompt_template user_template,
                    conversation_history = [history_header],
                    client = c\<rparr>))"

text \<open>\<^verbatim>\<open>_add_conversation_history\<close>: \<^verbatim>\<open>list.append\<close> on the history.\<close>

definition add_conversation_history :: "string \<Rightarrow> session \<Rightarrow> session" where
  "add_conversation_history c s = s\<lparr>conversation_history := conversation_history s @ [c]\<rparr>"

text \<open>
  \<^verbatim>\<open>_get_questions\<close>: the history joined by newlines, the two messages, the call, and
  on a response the text of \<^verbatim>\<open>choices[0]\<close> appended and returned. An exception
  leaves the object as the statements before it made it.
\<close>

definition get_questions :: "remote \<Rightarrow> string \<Rightarrow> session \<Rightarrow> (error + string) \<times> session" where
  "get_questions remote mdl s =
     (let rendered = join [NL] (conversation_history s);
          msgs = [\<lparr>role = ''system'', content = system_prompt_template s\<rparr>,
                  \<lparr>role = ''user'', content = rendered\<rparr>];
          (res, c) = create remote \<lparr>model = mdl, messages = msgs, temperature = 6 / 10\<rparr> (client s);
          s1 = s\<lparr>client := c\<rparr>
      in case res of
           Inl err \<Rightarrow> (Inl err, s1)
         | Inr chat_completion \<Rightarrow>
             (case choices chat_completion of
                [] \<Rightarrow> (Inl IndexError, s1)
              | c0 # _ \<Rightarrow>
                  (Inr (content (message c0)),
                   add_conversation_history (content (message c0)) s1)))"

text \<open>\<^verbatim>\<open>start_process\<close>: the user's text appended, then \<^verbatim>\<open>_get_questions\<close> with the fixed model.\<close>

definition start_process :: "remote \<Rightarrow> string \<Rightarrow> session \<Rightarrow> (error + string) \<times> session" where
  "start_process remote user_content s =
     get_questions remote ''gpt-4o'' (add_conversation_history user_content s)"

section \<open>The interface script\<close>

text \<open>
  \<^verbatim>\<open>st.session_state\<close> of \<^verbatim>\<open>app.py\<close>: each key is absent (\<open>None\<close>) until the
  script assigns it. The generator object is held in the state, so a call that changes
  the object changes the state.
\<close>

record session_state =
  generator :: "session option"
  chat_log :: "(string \<times> string) list option"
  clear_input :: "bool option"
  user_input :: "string option"
  widget :: "string option"

definition empty_state :: session_state where
  "empty_state =
     \<lparr>generator = None, chat_log = None, clear_input = None, user_input = None, widget = None\<rparr>"

text \<open>The speaker label of the user's lines and the phrase the first turn is seeded with.\<close>

definition you_label :: string where
  "you_label = [CHR 0xE4, CHR 0xBD, CHR 0xA0]"

definition trigger_phrase :: string where
  "trigger_phrase =
     [CHR 0xE9, CHR 0x96, CHR 0x8B, CHR 0xE5, CHR 0xA7, CHR 0x8B, CHR 0xE5, CHR 0x8F,
      CHR 0xA3, CHR 0xE8, CHR 0xA9, CHR 0xA6]"

text \<open>
  \<^verbatim>\<open>process_input\<close>: the user's entry is logged, the generator is asked, the reply
  is logged. Reading an absent key raises \<open>AttributeError\<close>; an exception of
  \<^verbatim>\<open>start_process\<close> ends the function with the state as it is by then.
\<close>

definition process_input :: "remote \<Rightarrow> session_state \<Rightarrow> (error + unit) \<times> session_state" where
  "process_input remote st =
     (case chat_log st of
        None \<Rightarrow> (Inl (AttributeError ''chat_log''), st)
      | Some entries \<Rightarrow>
     (case user_input st of
        None \<Rightarrow> (Inl (AttributeError ''user_input''), st)
      | Some text \<Rightarrow>
     (let st1 = st\<lparr>chat_log := Some (entries @ [(you_label, text)])\<rparr>
      in case generator st1 of
           None \<Rightarrow> (Inl (AttributeError ''generator''), st1)
         | Some g \<Rightarrow>
     (let (res, g') = start_process remote text g;
          st2 = st1\<lparr>generator := Some g'\<rparr>
      in case res of
           Inl err \<Rightarrow> (Inl err, st2)
         | Inr response \<Rightarrow>
             (Inr (),
              st2\<lparr>chat_log := Some (entries @ [(you_label, text)] @ [(''AI'', response)]),
                  clear_input := Some True\<rparr>)))))"

text \<open>\<^verbatim>\<open>submit\<close>, the text field's \<^verbatim>\<open>on_change\<close> callback.\<close>

definition submit :: "remote \<Rightarrow> session_state \<Rightarrow> (error + unit) \<times> session_state" where
  "submit remote st =
     (case widget st of
        None \<Rightarrow> (Inl (AttributeError ''widget''), st)
      | Some w \<Rightarrow> process_input remote (st\<lparr>user_input := Some w, widget := Some []\<rparr>))"

text \<open>
  One execution of the script body, top to bottom. \<open>clicked\<close> is what
  \<^verbatim>\<open>st.button\<close> returns on this execution (\<open>False\<close> on the first one, before the
  page has been shown). The text field registers its key with the empty string when the
  key is absent. The result is the list of lines written into the container, or the
  exception that stopped the execution.
\<close>

definition script :: "env \<Rightarrow> remote \<Rightarrow> bool \<Rightarrow> session_state \<Rightarrow> (error + string list) \<times> session_state" where
  "script e remote clicked st0 =
     (case (case generator st0 of
              Some _ \<Rightarrow> Inr st0
            | None \<Rightarrow>
                (case QuestionsGenerator e ''111403538'' of
                   Inl err \<Rightarrow> Inl err
                 | Inr g \<Rightarrow> Inr (st0\<lparr>generator := Some g\<rparr>))) of
        Inl err \<Rightarrow> (Inl err, st0)
      | Inr st1 \<Rightarrow>
     (let st2 = (if chat_log st1 = None then st1\<lparr>chat_log := Some []\<rparr> else st1);
          st3 = (if clear_input st2 = None then st2\<lparr>clear_input := Some False\<rparr> else st2);
          (r4, st4) =
            (if user_input st3 = None
             then process_input remote (st3\<lparr>user_input := Some trigger_phrase\<rparr>)
             else (Inr (), st3))
      in case r4 of
           Inl err \<Rightarrow> (Inl err, st4)
         | Inr _ \<Rightarrow>
     (let st5 = (if widget st4 = None then st4\<lparr>widget := Some []\<rparr> else st4);
          (r6, st6) = (if clicked then process_input remote st5 else (Inr (), st5))
      in case r6 of
           Inl err \<Rightarrow> (Inl err, st6)
         | Inr _ \<Rightarrow>
             (case chat_log st6 of
                None \<Rightarrow> (Inl (AttributeError ''chat_log''), st6)
              | Some entries \<Rightarrow>
                  (Inr (map (\<lambda>(speaker, msg). speaker @ '': '' @ msg) entries), st6)))))"

section \<open>Runs of turns\<close>

text \<open>
  A session lives through a sequence of calls of \<^verbatim>\<open>start_process\<close>, one for each
  user text; the object stays in use after a call that raised. \<open>turns\<close> is the
  session after such a sequence and \<open>results\<close> what each call returned or raised.
\<close>

fun turns :: "remote \<Rightarrow> string list \<Rightarrow> session \<Rightarrow> session" where
  "turns remote [] s = s"
| "turns remote (u # us) s = turns remote us (snd (start_process remote u s))"

fun results :: "remote \<Rightarrow> string list \<Rightarrow> session \<Rightarrow> (error + string) list" where
  "results remote [] s = []"
| "results remote (u # us) s =
     fst (start_process remote u s) # results remote us (snd (start_process remote u s))"

text \<open>The texts a finished call has appended: the user's, and the reply when there was one.\<close>

fun appended :: "string \<Rightarrow> error + string \<Rightarrow> string list" where
  "appended u (Inl err) = [u]"
| "appended u (Inr reply) = [u, reply]"

section \<open>What the specification says the context looks like\<close>

text \<open>
  The specification's rendering of the two sources, stated on its own so that the loops
  above can be compared with it: a midterm entry is the line \<open>key: value\<close>; the question
  at position \<open>j\<close> (counted from 0) of a category is the line \<open>j + 1\<close>, a dot, a blank and
  the question; a category is its name and a colon, an empty line, its numbered lines
  and an empty line.
\<close>

definition midterm_line_spec :: "string \<times> string \<Rightarrow> string" where
  "midterm_line_spec kv = fst kv @ '': '' @ snd kv @ [NL]"

definition numbered_line_spec :: "string list \<Rightarrow> nat \<Rightarrow> string" where
  "numbered_line_spec qs j = str_int (int j + 1) @ ''. '' @ qs ! j @ [NL]"

definition category_spec :: "string \<times> string list \<Rightarrow> string" where
  "category_spec kqs =
     fst kqs @ '':'' @ [NL, NL] @
     concat (map (numbered_line_spec (snd kqs)) [0..<length (snd kqs)]) @ [NL]"

section \<open>A concrete student\<close>

text \<open>
  The example of the specification: a midterm file with one weakness, a My-GPTs file
  with one category of two questions, and a credential in the environment.
\<close>

definition example_env :: env where
  "example_env =
     \<lparr>midterm_files = [''midterm/111403538.json'' \<mapsto> JSON [(''recursion'', ''weak'')]],
      mygpt_files =
        [''mygpt/111403538.json'' \<mapsto>
           JSON [(''loops'', [''why use a for-loop?'', ''what is an infinite loop?''])]],
      environ = [''OPENAI_API_KEY'' \<mapsto> ''sk-example'']\<rparr>"

text \<open>A remote model that always answers with one choice, and one that always fails.\<close>

definition answering :: "string \<Rightarrow> remote" where
  "answering reply = (\<lambda>reqs. Inr \<lparr>choices = [\<lparr>message = \<lparr>role = ''assistant'', content = reply\<rparr>\<rparr>]\<rparr>)"

definition failing :: "error \<Rightarrow> remote" where
  "failing err = (\<lambda>reqs. Inl err)"

text \<open>A remote model that fails on the first request it is sent and answers the later ones.\<close>

definition flaky :: "string \<Rightarrow> remote" where
  "flaky reply =
     (\<lambda>reqs. if length reqs = 1 then Inl (APIError ''timeout'')
             else Inr \<lparr>choices = [\<lparr>message = \<lparr>role = ''assistant'', content = reply\<rparr>\<rparr>]\<rparr>)"

text \<open>A session in mid-conversation, built by hand.\<close>

definition example_session :: session where
  "example_session =
     \<lparr>student_id = ''111403538'',
      user_prompt_template = ''context'',
      system_prompt_template = ''instruction'',
      conversation_history = [history_header, ''hello'', ''Hi, what is your name?''],
      client = \<lparr>api_key = ''sk-example'', sent = []\<rparr>\<rparr>"

section \<open>The loops compute the specified rendering\<close>

lemma get_midterm_loop_eq:
  "get_midterm_loop m result = result @ concat (map midterm_line_spec m)"
  by (induction m result rule: get_midterm_loop.induct) (simp_all add: midterm_line_spec_def)

lemma questions_loop_eq:
  "questions_loop iqs result =
     result @ concat (map (\<lambda>iq. str_int (fst iq) @ ''. '' @ snd iq @ [NL]) iqs)"
  by (induction iqs result rule: questions_loop.induct) simp_all

lemma enumerate_from_eq:
  "enumerate_from i xs = map (\<lambda>j. (i + int j, xs ! j)) [0..<length xs]"
proof (induction xs arbitrary: i)
  case Nil
  show ?case by simp
next
  case (Cons x xs)
  have "map (\<lambda>j. (i + int j, (x # xs) ! j)) [0..<length (x # xs)] =
        (i, x) # map (\<lambda>j. (i + int (Suc j), xs ! j)) [0..<length xs]"
    by (simp add: upt_conv_Cons map_Suc_upt [symmetric] del: upt_Suc)
  also have "map (\<lambda>j. (i + int (Suc j), xs ! j)) [0..<length xs] = enumerate_from (i + 1) xs"
    by (simp add: Cons.IH add.assoc add.commute)
  finally show ?case by simp
qed

lemma questions_loop_enumerate:
  "questions_loop (enumerate_from 1 qs) result =
   result @ concat (map (numbered_line_spec qs) [0..<length qs])"
proof -
  have "numbered_line_spec qs = (\<lambda>j. str_int (1 + int j) @ ''. '' @ qs ! j @ [NL])"
    by (rule ext) (simp add: numbered_line_spec_def add.commute)
  then show ?thesis
    by (simp add: questions_loop_eq enumerate_from_eq comp_def)
qed

lemma get_mygpt_loop_eq:
  "get_mygpt_loop g result = result @ concat (map category_spec g)"
  by (induction g result rule: get_mygpt_loop.induct)
     (simp_all add: questions_loop_enumerate category_spec_def)

lemma get_midterm_found:
  "midterm_files e (''midterm/'' @ sid @ ''.json'') = Some (JSON m) \<Longrightarrow>
   get_midterm e sid = Inr (concat (map midterm_line_spec m))"
  by (simp add: get_midterm_def get_midterm_loop_eq)

lemma get_mygpt_found:
  "mygpt_files e (''mygpt/'' @ sid @ ''.json'') = Some (JSON g) \<Longrightarrow>
   get_mygpt e sid = Inr (concat (map category_spec g))"
  by (simp add: get_mygpt_def get_mygpt_loop_eq)

lemma str_int_1: "str_int 1 = ''1''" and str_int_2: "str_int 2 = ''2''"
  by (simp_all add: str_int_def digit_def)

text \<open>
  C2. Whenever both files of a student load, the midterm text is one \<open>key: value\<close> line
  for each entry, in the order of the file, and the questions text is, for each category,
  its name, an empty line, its questions numbered from 1 and an empty line, which
  separates it from the next category. The user prompt template holds the two texts
  under their headings. For the midterm \<open>{"recursion": "weak"}\<close> and the questions
  \<open>{"loops": ["why use a for-loop?", "what is an infinite loop?"]}\<close> it contains the line
  \<open>recursion: weak\<close> and the section \<open>loops:\<close> with the items
  \<open>1. why use a for-loop?\<close> and \<open>2. what is an infinite loop?\<close>.
\<close>

theorem context_rendering:
  assumes "midterm_files e (''midterm/'' @ sid @ ''.json'') = Some (JSON m)"
    and "mygpt_files e (''mygpt/'' @ sid @ ''.json'') = Some (JSON g)"
  shows "get_midterm e sid = Inr (concat (map midterm_line_spec m)) \<and>
         get_mygpt e sid = Inr (concat (map category_spec g)) \<and>
         initialize_user_prompt_template e sid =
           Inr (midterm_heading @ concat (map midterm_line_spec m) @
                questions_heading @ concat (map category_spec g) @ template_tail) \<and>
         (m = [(''recursion'', ''weak'')] \<and>
          g = [(''loops'', [''why use a for-loop?'', ''what is an infinite loop?''])] \<longrightarrow>
          initialize_user_prompt_template e sid =
            Inr (midterm_heading @
                 ''recursion: weak'' @ [NL] @
                 questions_heading @
                 ''loops:'' @ [NL] @
                 [NL] @
                 ''1. why use a for-loop?'' @ [NL] @
                 ''2. what is an infinite loop?'' @ [NL] @
                 [NL] @
                 template_tail))"
proof -
  have mid: "get_midterm e sid = Inr (concat (map midterm_line_spec m))"
    using assms(1) by (rule get_midterm_found)
  have gpt: "get_mygpt e sid = Inr (concat (map category_spec g))"
    using assms(2) by (rule get_mygpt_found)
  have tmpl: "initialize_user_prompt_template e sid =
      Inr (midterm_heading @ concat (map midterm_line_spec m) @
           questions_heading @ concat (map category_spec g) @ template_tail)"
    by (simp add: initialize_user_prompt_template_def mid gpt)
  have ex1: "concat (map midterm_line_spec [(''recursion'', ''weak'')]) = ''recursion: weak'' @ [NL]"
    by (simp add: midterm_line_spec_def)
  have ex2: "concat (map category_spec
               [(''loops'', [''why use a for-loop?'', ''what is an infinite loop?''])]) =
             ''loops:'' @ [NL] @ [NL] @ ''1. why use a for-loop?'' @ [NL] @
             ''2. what is an infinite loop?'' @ [NL] @ [NL]"
    by (simp add: category_spec_def numbered_line_spec_def str_int_1 str_int_2 upt_rec [of 0] upt_rec [of 1])
  show ?thesis
    using mid gpt tmpl ex1 ex2 by simp
qed

theorem context_rendering_witness:
  "midterm_files example_env (''midterm/'' @ ''111403538'' @ ''.json'') =
     Some (JSON [(''recursion'', ''weak'')]) \<and>
   mygpt_files example_env (''mygpt/'' @ ''111403538'' @ ''.json'') =
     Some (JSON [(''loops'', [''why use a for-loop?'', ''what is an infinite loop?''])]) \<and>
   get_midterm example_env ''111403538'' = Inr (''recursion: weak'' @ [NL]) \<and>
   initialize_user_prompt_template example_env ''111403538'' =
     Inr (midterm_heading @
          ''recursion: weak'' @ [NL] @
          questions_heading @
          ''loops:'' @ [NL] @
          [NL] @
          ''1. why use a for-loop?'' @ [NL] @
          ''2. what is an infinite loop?'' @ [NL] @
          [NL] @
          template_tail)"
proof -
  have f1: "midterm_files example_env (''midterm/'' @ ''111403538'' @ ''.json'') =
     Some (JSON [(''recursion'', ''weak'')])"
    by (simp add: example_env_def)
  have f2: "mygpt_files example_env (''mygpt/'' @ ''111403538'' @ ''.json'') =
     Some (JSON [(''loops'', [''why use a for-loop?'', ''what is an infinite loop?''])])"
    by (simp add: example_env_def)
  note r = context_rendering [OF f1 f2]
  have a: "get_midterm example_env ''111403538'' = Inr (''recursion: weak'' @ [NL])"
    using r by (simp add: midterm_line_spec_def)
  have b: "initialize_user_prompt_template example_env ''111403538'' =
     Inr (midterm_heading @
          ''recursion: weak'' @ [NL] @
          questions_heading @
          ''loops:'' @ [NL] @
          [NL] @
          ''1. why use a for-loop?'' @ [NL] @
          ''2. what is an infinite loop?'' @ [NL] @
          [NL] @
          template_tail)"
    using r by blast
  from f1 f2 a b show ?thesis
    by (intro conjI)
qed

section \<open>Construction\<close>

lemma get_midterm_missing:
  "midterm_files e (''midterm/'' @ sid @ ''.json'') = None \<Longrightarrow>
   get_midterm e sid = Inl (FileNotFoundError (''midterm/'' @ sid @ ''.json''))"
  by (simp add: get_midterm_def)

text \<open>
  C5. When the midterm file of a student is missing, the constructor ends with
  \<open>FileNotFoundError\<close> for that path (the kind the specification calls
  StudentDataNotFound) and yields no object, whatever else the environment holds; and
  the script, which builds the generator for student 111403538, stops with the same error
  and its state unchanged, so that no generator is stored.
\<close>

theorem missing_midterm_file:
  assumes "midterm_files e (''midterm/'' @ sid @ ''.json'') = None"
  shows "QuestionsGenerator e sid = Inl (FileNotFoundError (''midterm/'' @ sid @ ''.json'')) \<and>
         (\<forall>s. QuestionsGenerator e sid \<noteq> Inr s) \<and>
         (sid = ''111403538'' \<and> generator st = None \<longrightarrow>
          script e remote clicked st =
            (Inl (FileNotFoundError (''midterm/'' @ sid @ ''.json'')), st))"
proof -
  have "initialize_user_prompt_template e sid =
          Inl (FileNotFoundError (''midterm/'' @ sid @ ''.json''))"
    by (simp add: initialize_user_prompt_template_def get_midterm_missing [OF assms])
  then have c: "QuestionsGenerator e sid = Inl (FileNotFoundError (''midterm/'' @ sid @ ''.json''))"
    by (simp add: QuestionsGenerator_def)
  then have "sid = ''111403538'' \<and> generator st = None \<longrightarrow>
      script e remote clicked st = (Inl (FileNotFoundError (''midterm/'' @ sid @ ''.json'')), st)"
    by (auto simp add: script_def)
  with c show ?thesis by simp
qed

theorem missing_midterm_file_witness:
  "midterm_files (example_env\<lparr>midterm_files := Map.empty\<rparr>) (''midterm/'' @ ''111403538'' @ ''.json'') = None \<and>
   QuestionsGenerator (example_env\<lparr>midterm_files := Map.empty\<rparr>) ''111403538'' =
     Inl (FileNotFoundError ''midterm/111403538.json'') \<and>
   script (example_env\<lparr>midterm_files := Map.empty\<rparr>) (answering ''Hello'') False empty_state =
     (Inl (FileNotFoundError ''midterm/111403538.json''), empty_state)"
proof -
  have f: "midterm_files (example_env\<lparr>midterm_files := Map.empty\<rparr>)
             (''midterm/'' @ ''111403538'' @ ''.json'') = None"
    by simp
  have g: "generator empty_state = None"
    by (simp add: empty_state_def)
  note r = missing_midterm_file [OF f, of empty_state "answering ''Hello''" False]
  have a: "QuestionsGenerator (example_env\<lparr>midterm_files := Map.empty\<rparr>) ''111403538'' =
     Inl (FileNotFoundError ''midterm/111403538.json'')"
    using r by simp
  have b: "script (example_env\<lparr>midterm_files := Map.empty\<rparr>) (answering ''Hello'') False empty_state =
     (Inl (FileNotFoundError ''midterm/111403538.json''), empty_state)"
    using r g by simp
  from f a b show ?thesis by (intro conjI)
qed

lemma QuestionsGenerator_loaded:
  assumes "midterm_files e (''midterm/'' @ sid @ ''.json'') = Some (JSON m)"
    and "mygpt_files e (''mygpt/'' @ sid @ ''.json'') = Some (JSON g)"
    and "environ e ''OPENAI_API_KEY'' = Some k"
  shows "QuestionsGenerator e sid =
           Inr \<lparr>student_id = sid,
                user_prompt_template =
                  midterm_heading @ concat (map midterm_line_spec m) @
                  questions_heading @ concat (map category_spec g) @ template_tail,
                system_prompt_template =
                  system_template_text @
                  midterm_heading @ concat (map midterm_line_spec m) @
                  questions_heading @ concat (map category_spec g) @ template_tail @ [NL],
                conversation_history = [history_header],
                client = \<lparr>api_key = k, sent = []\<rparr>\<rparr>"
  using assms
  by (simp add: QuestionsGenerator_def initialize_user_prompt_template_def
      get_midterm_found get_mygpt_found OpenAI_def initialize_system_prompt_template_def)

text \<open>
  C3. For a student whose two files load (and with a credential present, without which
  there is no object to hold the instruction), the system instruction is the constant
  preamble, then the midterm heading and the midterm lines, then the questions heading
  and the question sections, then the constant tail. The right-hand side mentions only
  the contents of the two files, so the instruction is a function of them alone: any
  other environment that holds the same contents gives the same instruction, byte for
  byte. The constructor reads the environment and returns a value; there is nothing else
  it could change.
\<close>

theorem system_instruction:
  assumes "midterm_files e (''midterm/'' @ sid @ ''.json'') = Some (JSON m)"
    and "mygpt_files e (''mygpt/'' @ sid @ ''.json'') = Some (JSON g)"
    and "environ e ''OPENAI_API_KEY'' = Some k"
  shows "QuestionsGenerator e sid =
           Inr \<lparr>student_id = sid,
                user_prompt_template =
                  midterm_heading @ concat (map midterm_line_spec m) @
                  questions_heading @ concat (map category_spec g) @ template_tail,
                system_prompt_template =
                  system_template_text @
                  midterm_heading @ concat (map midterm_line_spec m) @
                  questions_heading @ concat (map category_spec g) @ template_tail @ [NL],
                conversation_history = [history_header],
                client = \<lparr>api_key = k, sent = []\<rparr>\<rparr> \<and>
         (\<forall>e' k'. midterm_files e' (''midterm/'' @ sid @ ''.json'') = Some (JSON m) \<and>
                  mygpt_files e' (''mygpt/'' @ sid @ ''.json'') = Some (JSON g) \<and>
                  environ e' ''OPENAI_API_KEY'' = Some k' \<longrightarrow>
                  map_sum id system_prompt_template (QuestionsGenerator e' sid) =
                  map_sum id system_prompt_template (QuestionsGenerator e sid))"
proof -
  have same: "map_sum id system_prompt_template (QuestionsGenerator e' sid) =
              map_sum id system_prompt_template (QuestionsGenerator e sid)"
    if "midterm_files e' (''midterm/'' @ sid @ ''.json'') = Some (JSON m)"
      and "mygpt_files e' (''mygpt/'' @ sid @ ''.json'') = Some (JSON g)"
      and "environ e' ''OPENAI_API_KEY'' = Some k'"
    for e' k'
    by (simp add: QuestionsGenerator_loaded [OF that] QuestionsGenerator_loaded [OF assms])
  show ?thesis
    using QuestionsGenerator_loaded [OF assms] same by blast
qed

theorem system_instruction_witness:
  "midterm_files example_env (''midterm/'' @ ''111403538'' @ ''.json'') =
     Some (JSON [(''recursion'', ''weak'')]) \<and>
   mygpt_files example_env (''mygpt/'' @ ''111403538'' @ ''.json'') =
     Some (JSON [(''loops'', [''why use a for-loop?'', ''what is an infinite loop?''])]) \<and>
   environ example_env ''OPENAI_API_KEY'' = Some ''sk-example'' \<and>
   map_sum id system_prompt_template (QuestionsGenerator example_env ''111403538'') =
     Inr (system_template_text @
          midterm_heading @ ''recursion: weak'' @ [NL] @
          questions_heading @
          concat (map category_spec
            [(''loops'', [''why use a for-loop?'', ''what is an infinite loop?''])]) @
          template_tail @ [NL]) \<and>
   map_sum id system_prompt_template
     (QuestionsGenerator (example_env\<lparr>environ := [''OPENAI_API_KEY'' \<mapsto> ''sk-other'']\<rparr>) ''111403538'') =
   map_sum id system_prompt_template (QuestionsGenerator example_env ''111403538'')"
proof -
  have f1: "midterm_files example_env (''midterm/'' @ ''111403538'' @ ''.json'') =
     Some (JSON [(''recursion'', ''weak'')])"
    by (simp add: example_env_def)
  have f2: "mygpt_files example_env (''mygpt/'' @ ''111403538'' @ ''.json'') =
     Some (JSON [(''loops'', [''why use a for-loop?'', ''what is an infinite loop?''])])"
    by (simp add: example_env_def)
  have f3: "environ example_env ''OPENAI_API_KEY'' = Some ''sk-example''"
    by (simp add: example_env_def)
  note r = system_instruction [OF f1 f2 f3, THEN conjunct1]
  have a: "map_sum id system_prompt_template (QuestionsGenerator example_env ''111403538'') =
     Inr (system_template_text @
          midterm_heading @ ''recursion: weak'' @ [NL] @
          questions_heading @
          concat (map category_spec
            [(''loops'', [''why use a for-loop?'', ''what is an infinite loop?''])]) @
          template_tail @ [NL])"
    by (simp only: r) (simp add: midterm_line_spec_def)
  let ?e' = "example_env\<lparr>environ := [''OPENAI_API_KEY'' \<mapsto> ''sk-other'']\<rparr>"
  have g: "midterm_files ?e' (''midterm/'' @ ''111403538'' @ ''.json'') =
             Some (JSON [(''recursion'', ''weak'')]) \<and>
           mygpt_files ?e' (''mygpt/'' @ ''111403538'' @ ''.json'') =
             Some (JSON [(''loops'', [''why use a for-loop?'', ''what is an infinite loop?''])]) \<and>
           environ ?e' ''OPENAI_API_KEY'' = Some ''sk-other''"
    by (simp add: example_env_def)
  have b: "map_sum id system_prompt_template (QuestionsGenerator ?e' ''111403538'') =
           map_sum id system_prompt_template (QuestionsGenerator example_env ''111403538'')"
    using system_instruction [OF f1 f2 f3, THEN conjunct2] g by blast
  from f1 f2 f3 a b show ?thesis by (intro conjI)
qed

section \<open>One turn\<close>

lemma get_questions_reply:
  assumes "remote (sent (client s) @
             [\<lparr>model = mdl,
               messages = [\<lparr>role = ''system'', content = system_prompt_template s\<rparr>,
                           \<lparr>role = ''user'', content = join [NL] (conversation_history s)\<rparr>],
               temperature = 6 / 10\<rparr>]) = Inr cc"
    and "choices cc = c0 # rest"
  shows "get_questions remote mdl s =
           (Inr (content (message c0)),
            s\<lparr>conversation_history := conversation_history s @ [content (message c0)],
              client := (client s)\<lparr>sent := sent (client s) @
                [\<lparr>model = mdl,
                  messages = [\<lparr>role = ''system'', content = system_prompt_template s\<rparr>,
                              \<lparr>role = ''user'', content = join [NL] (conversation_history s)\<rparr>],
                  temperature = 6 / 10\<rparr>]\<rparr>\<rparr>)"
  using assms by (simp add: get_questions_def create_def add_conversation_history_def)

lemma get_questions_raise:
  assumes "remote (sent (client s) @
             [\<lparr>model = mdl,
               messages = [\<lparr>role = ''system'', content = system_prompt_template s\<rparr>,
                           \<lparr>role = ''user'', content = join [NL] (conversation_history s)\<rparr>],
               temperature = 6 / 10\<rparr>]) = Inl err"
  shows "get_questions remote mdl s =
           (Inl err,
            s\<lparr>client := (client s)\<lparr>sent := sent (client s) @
                [\<lparr>model = mdl,
                  messages = [\<lparr>role = ''system'', content = system_prompt_template s\<rparr>,
                              \<lparr>role = ''user'', content = join [NL] (conversation_history s)\<rparr>],
                  temperature = 6 / 10\<rparr>]\<rparr>\<rparr>)"
  using assms by (simp add: get_questions_def create_def)

lemma get_questions_sent:
  "sent (client (snd (get_questions remote mdl s))) =
     sent (client s) @
       [\<lparr>model = mdl,
         messages = [\<lparr>role = ''system'', content = system_prompt_template s\<rparr>,
                     \<lparr>role = ''user'', content = join [NL] (conversation_history s)\<rparr>],
         temperature = 6 / 10\<rparr>]"
  by (simp add: get_questions_def create_def add_conversation_history_def Let_def
      split: sum.splits list.splits)

lemma get_questions_history:
  "conversation_history (snd (get_questions remote mdl s)) =
     conversation_history s @
       (case fst (get_questions remote mdl s) of Inl err \<Rightarrow> [] | Inr reply \<Rightarrow> [reply])"
  by (simp add: get_questions_def create_def add_conversation_history_def Let_def
      split: sum.splits list.splits)

lemma get_questions_fixed:
  "system_prompt_template (snd (get_questions remote mdl s)) = system_prompt_template s"
  by (simp add: get_questions_def create_def add_conversation_history_def Let_def
      split: sum.splits list.splits)

lemma start_process_history:
  "conversation_history (snd (start_process remote u s)) =
     conversation_history s @ appended u (fst (start_process remote u s))"
  by (simp add: start_process_def get_questions_history add_conversation_history_def
      split: sum.splits)

lemma start_process_sent:
  "sent (client (snd (start_process remote u s))) =
     sent (client s) @
       [\<lparr>model = ''gpt-4o'',
         messages = [\<lparr>role = ''system'', content = system_prompt_template s\<rparr>,
                     \<lparr>role = ''user'', content = join [NL] (conversation_history s @ [u])\<rparr>],
         temperature = 6 / 10\<rparr>]"
  by (simp add: start_process_def get_questions_sent add_conversation_history_def)

lemma start_process_fixed:
  "system_prompt_template (snd (start_process remote u s)) = system_prompt_template s"
  by (simp add: start_process_def get_questions_fixed add_conversation_history_def)

text \<open>
  C1. A turn whose completion call returns a response with a first choice does these
  things and no others: the user's text is appended to the history; one request goes out,
  carrying the session's system instruction and the history rendered with the user's text
  as its last line (and not yet the reply), for the model \<open>gpt-4o\<close> at temperature 0.6;
  the text of the first choice is appended after the user's text; and that same text is
  returned.
\<close>

theorem start_process_steps:
  assumes "req = \<lparr>model = ''gpt-4o'',
                  messages = [\<lparr>role = ''system'', content = system_prompt_template s\<rparr>,
                              \<lparr>role = ''user'', content = join [NL] (conversation_history s @ [u])\<rparr>],
                  temperature = 6 / 10\<rparr>"
    and "remote (sent (client s) @ [req]) = Inr cc"
    and "choices cc = c0 # rest"
  shows "start_process remote u s =
           (Inr (content (message c0)),
            s\<lparr>conversation_history := conversation_history s @ [u, content (message c0)],
              client := (client s)\<lparr>sent := sent (client s) @ [req]\<rparr>\<rparr>)"
proof -
  let ?s1 = "add_conversation_history u s"
  have "remote (sent (client ?s1) @
             [\<lparr>model = ''gpt-4o'',
               messages = [\<lparr>role = ''system'', content = system_prompt_template ?s1\<rparr>,
                           \<lparr>role = ''user'', content = join [NL] (conversation_history ?s1)\<rparr>],
               temperature = 6 / 10\<rparr>]) = Inr cc"
    using assms(1,2) by (simp add: add_conversation_history_def)
  from get_questions_reply [where remote = remote and s = ?s1, OF this assms(3)] show ?thesis
    by (simp add: start_process_def assms(1) add_conversation_history_def)
qed

theorem start_process_steps_witness:
  "start_process (answering ''Which year are you in?'') ''Wang'' example_session =
     (Inr ''Which year are you in?'',
      example_session
        \<lparr>conversation_history :=
           [history_header, ''hello'', ''Hi, what is your name?'', ''Wang'', ''Which year are you in?''],
         client := \<lparr>api_key = ''sk-example'',
                    sent = [\<lparr>model = ''gpt-4o'',
                             messages = [\<lparr>role = ''system'', content = ''instruction''\<rparr>,
                                         \<lparr>role = ''user'',
                                          content = history_header @ [NL] @ ''hello'' @ [NL] @
                                            ''Hi, what is your name?'' @ [NL] @ ''Wang''\<rparr>],
                             temperature = 6 / 10\<rparr>]\<rparr>\<rparr>)"
proof -
  let ?req = "\<lparr>model = ''gpt-4o'',
                messages = [\<lparr>role = ''system'', content = system_prompt_template example_session\<rparr>,
                            \<lparr>role = ''user'',
                             content = join [NL] (conversation_history example_session @ [''Wang''])\<rparr>],
                temperature = 6 / 10\<rparr>"
  let ?c0 = "\<lparr>message = \<lparr>role = ''assistant'', content = ''Which year are you in?''\<rparr>\<rparr>"
  have a: "answering ''Which year are you in?'' (sent (client example_session) @ [?req]) =
             Inr \<lparr>choices = [?c0]\<rparr>"
    by (simp add: answering_def)
  have b: "choices \<lparr>choices = [?c0]\<rparr> = ?c0 # []"
    by simp
  show ?thesis
    using start_process_steps [where remote = "answering ''Which year are you in?''" and s = example_session
        and u = "''Wang''", OF refl a b]
    by (simp add: example_session_def)
qed

text \<open>
  C4. Each call of the completion operation adds exactly one request to the client's log,
  whatever the remote answers. The request holds two messages, the first with role
  \<open>system\<close> and the session's system instruction, the second with role \<open>user\<close> and the
  history joined by newlines, together with the model it was given and the temperature
  0.6; in a turn the model is \<open>gpt-4o\<close> and the history already ends with the user's
  text. When the response has a first choice, the text of that choice is what the
  operation returns.
\<close>

theorem completion_request:
  "sent (client (snd (get_questions remote mdl s))) =
     sent (client s) @
       [\<lparr>model = mdl,
         messages = [\<lparr>role = ''system'', content = system_prompt_template s\<rparr>,
                     \<lparr>role = ''user'', content = join [NL] (conversation_history s)\<rparr>],
         temperature = 6 / 10\<rparr>] \<and>
   sent (client (snd (start_process remote u s))) =
     sent (client s) @
       [\<lparr>model = ''gpt-4o'',
         messages = [\<lparr>role = ''system'', content = system_prompt_template s\<rparr>,
                     \<lparr>role = ''user'', content = join [NL] (conversation_history s @ [u])\<rparr>],
         temperature = 6 / 10\<rparr>] \<and>
   (remote (sent (client s) @
       [\<lparr>model = mdl,
         messages = [\<lparr>role = ''system'', content = system_prompt_template s\<rparr>,
                     \<lparr>role = ''user'', content = join [NL] (conversation_history s)\<rparr>],
         temperature = 6 / 10\<rparr>]) = Inr cc \<and>
    choices cc = c0 # rest \<longrightarrow>
    fst (get_questions remote mdl s) = Inr (content (message c0)))"
proof (intro conjI impI)
  show "sent (client (snd (get_questions remote mdl s))) =
     sent (client s) @
       [\<lparr>model = mdl,
         messages = [\<lparr>role = ''system'', content = system_prompt_template s\<rparr>,
                     \<lparr>role = ''user'', content = join [NL] (conversation_history s)\<rparr>],
         temperature = 6 / 10\<rparr>]"
    by (rule get_questions_sent)
next
  show "sent (client (snd (start_process remote u s))) =
     sent (client s) @
       [\<lparr>model = ''gpt-4o'',
         messages = [\<lparr>role = ''system'', content = system_prompt_template s\<rparr>,
                     \<lparr>role = ''user'', content = join [NL] (conversation_history s @ [u])\<rparr>],
         temperature = 6 / 10\<rparr>]"
    by (rule start_process_sent)
next
  assume a: "remote (sent (client s) @
       [\<lparr>model = mdl,
         messages = [\<lparr>role = ''system'', content = system_prompt_template s\<rparr>,
                     \<lparr>role = ''user'', content = join [NL] (conversation_history s)\<rparr>],
         temperature = 6 / 10\<rparr>]) = Inr cc \<and>
    choices cc = c0 # rest"
  from a have a1: "remote (sent (client s) @
       [\<lparr>model = mdl,
         messages = [\<lparr>role = ''system'', content = system_prompt_template s\<rparr>,
                     \<lparr>role = ''user'', content = join [NL] (conversation_history s)\<rparr>],
         temperature = 6 / 10\<rparr>]) = Inr cc"
    by (rule conjunct1)
  from a have a2: "choices cc = c0 # rest"
    by (rule conjunct2)
  show "fst (get_questions remote mdl s) = Inr (content (message c0))"
    by (simp add: get_questions_reply [where remote = remote, OF a1 a2])
qed

theorem completion_request_witness:
  "sent (client (snd (get_questions (answering ''Which year are you in?'') ''gpt-4o'' example_session))) =
     [\<lparr>model = ''gpt-4o'',
       messages = [\<lparr>role = ''system'', content = ''instruction''\<rparr>,
                   \<lparr>role = ''user'',
                    content = history_header @ [NL] @ ''hello'' @ [NL] @ ''Hi, what is your name?''\<rparr>],
       temperature = 6 / 10\<rparr>] \<and>
   fst (get_questions (answering ''Which year are you in?'') ''gpt-4o'' example_session) =
     Inr ''Which year are you in?''"
proof -
  let ?c0 = "\<lparr>message = \<lparr>role = ''assistant'', content = ''Which year are you in?''\<rparr>\<rparr>"
  note r = completion_request [where remote = "answering ''Which year are you in?''"
      and mdl = "''gpt-4o''" and s = example_session and cc = "\<lparr>choices = [?c0]\<rparr>"
      and ?c0.0 = ?c0 and rest = "[]" and u = "''Wang''"]
  have a: "sent (client (snd (get_questions (answering ''Which year are you in?'') ''gpt-4o'' example_session))) =
     [\<lparr>model = ''gpt-4o'',
       messages = [\<lparr>role = ''system'', content = ''instruction''\<rparr>,
                   \<lparr>role = ''user'',
                    content = history_header @ [NL] @ ''hello'' @ [NL] @ ''Hi, what is your name?''\<rparr>],
       temperature = 6 / 10\<rparr>]"
    by (simp only: r [THEN conjunct1]) (simp add: example_session_def)
  have b: "fst (get_questions (answering ''Which year are you in?'') ''gpt-4o'' example_session) =
     Inr ''Which year are you in?''"
    using r [THEN conjunct2, THEN conjunct2] by (simp add: answering_def)
  from a b show ?thesis by (intro conjI)
qed

lemma process_input_raise:
  assumes "generator st = Some g" and "chat_log st = Some entries" and "user_input st = Some u"
    and "fst (start_process remote u g) = Inl err"
  shows "process_input remote st =
           (Inl err, st\<lparr>chat_log := Some (entries @ [(you_label, u)]),
                        generator := Some (snd (start_process remote u g))\<rparr>)"
  using assms by (simp add: process_input_def split_beta)

text \<open>
  C6. When the completion call of a turn raises, \<^verbatim>\<open>start_process\<close> raises that very
  error. The client's log has grown by the one request and no second one was made. The
  history is the old one with the user's text at its end and no reply after it: the
  append made before the call stays. The interface's \<^verbatim>\<open>process_input\<close> passes the
  same error on to its own caller.
\<close>

theorem failed_turn:
  assumes "req = \<lparr>model = ''gpt-4o'',
                  messages = [\<lparr>role = ''system'', content = system_prompt_template s\<rparr>,
                              \<lparr>role = ''user'', content = join [NL] (conversation_history s @ [u])\<rparr>],
                  temperature = 6 / 10\<rparr>"
    and "remote (sent (client s) @ [req]) = Inl err"
  shows "start_process remote u s =
           (Inl err,
            s\<lparr>conversation_history := conversation_history s @ [u],
              client := (client s)\<lparr>sent := sent (client s) @ [req]\<rparr>\<rparr>) \<and>
         (generator st = Some s \<and> chat_log st = Some entries \<and> user_input st = Some u \<longrightarrow>
          fst (process_input remote st) = Inl err)"
proof -
  let ?s1 = "add_conversation_history u s"
  have "remote (sent (client ?s1) @
             [\<lparr>model = ''gpt-4o'',
               messages = [\<lparr>role = ''system'', content = system_prompt_template ?s1\<rparr>,
                           \<lparr>role = ''user'', content = join [NL] (conversation_history ?s1)\<rparr>],
               temperature = 6 / 10\<rparr>]) = Inl err"
    using assms by (simp add: add_conversation_history_def)
  from get_questions_raise [where remote = remote and s = ?s1, OF this]
  have sp: "start_process remote u s =
           (Inl err,
            s\<lparr>conversation_history := conversation_history s @ [u],
              client := (client s)\<lparr>sent := sent (client s) @ [req]\<rparr>\<rparr>)"
    by (simp add: start_process_def assms(1) add_conversation_history_def)
  have "fst (process_input remote st) = Inl err"
    if "generator st = Some s" and "chat_log st = Some entries" and "user_input st = Some u"
    using process_input_raise [OF that, of remote err] sp by simp
  with sp show ?thesis by blast
qed

theorem failed_turn_witness:
  "start_process (failing (APIError ''rate limit'')) ''Wang'' example_session =
     (Inl (APIError ''rate limit''),
      example_session
        \<lparr>conversation_history := [history_header, ''hello'', ''Hi, what is your name?'', ''Wang''],
         client := \<lparr>api_key = ''sk-example'',
                    sent = [\<lparr>model = ''gpt-4o'',
                             messages = [\<lparr>role = ''system'', content = ''instruction''\<rparr>,
                                         \<lparr>role = ''user'',
                                          content = history_header @ [NL] @ ''hello'' @ [NL] @
                                            ''Hi, what is your name?'' @ [NL] @ ''Wang''\<rparr>],
                             temperature = 6 / 10\<rparr>]\<rparr>\<rparr>) \<and>
   fst (process_input (failing (APIError ''rate limit''))
          \<lparr>generator = Some example_session, chat_log = Some [], clear_input = Some False,
           user_input = Some ''Wang'', widget = Some []\<rparr>) = Inl (APIError ''rate limit'')"
proof -
  let ?req = "\<lparr>model = ''gpt-4o'',
                messages = [\<lparr>role = ''system'', content = system_prompt_template example_session\<rparr>,
                            \<lparr>role = ''user'',
                             content = join [NL] (conversation_history example_session @ [''Wang''])\<rparr>],
                temperature = 6 / 10\<rparr>"
  let ?st = "\<lparr>generator = Some example_session, chat_log = Some [], clear_input = Some False,
           user_input = Some ''Wang'', widget = Some []\<rparr>"
  have a: "failing (APIError ''rate limit'') (sent (client example_session) @ [?req]) =
             Inl (APIError ''rate limit'')"
    by (simp add: failing_def)
  note r = failed_turn [where remote = "failing (APIError ''rate limit'')" and s = example_session
      and u = "''Wang''" and st = ?st and entries = "[]", OF refl a]
  have b: "start_process (failing (APIError ''rate limit'')) ''Wang'' example_session =
     (Inl (APIError ''rate limit''),
      example_session
        \<lparr>conversation_history := [history_header, ''hello'', ''Hi, what is your name?'', ''Wang''],
         client := \<lparr>api_key = ''sk-example'',
                    sent = [\<lparr>model = ''gpt-4o'',
                             messages = [\<lparr>role = ''system'', content = ''instruction''\<rparr>,
                                         \<lparr>role = ''user'',
                                          content = history_header @ [NL] @ ''hello'' @ [NL] @
                                            ''Hi, what is your name?'' @ [NL] @ ''Wang''\<rparr>],
                             temperature = 6 / 10\<rparr>]\<rparr>\<rparr>)"
    by (simp only: r [THEN conjunct1]) (simp add: example_session_def)
  have c: "fst (process_input (failing (APIError ''rate limit'')) ?st) = Inl (APIError ''rate limit'')"
    using r [THEN conjunct2] by simp
  from b c show ?thesis by (intro conjI)
qed

section \<open>The history only grows\<close>

lemma get_questions_prefix:
  "prefix (conversation_history s) (conversation_history (snd (get_questions remote mdl s)))"
  by (simp add: get_questions_history)

lemma start_process_prefix:
  "strict_prefix (conversation_history s) (conversation_history (snd (start_process remote u s)))"
  by (cases "fst (start_process remote u s)") (simp_all add: start_process_history strict_prefix_def)

lemma turns_prefix:
  "prefix (conversation_history s) (conversation_history (turns remote us s))"
proof (induction us arbitrary: s)
  case Nil
  show ?case by simp
next
  case (Cons u us)
  have "prefix (conversation_history s) (conversation_history (snd (start_process remote u s)))"
    using start_process_prefix [of s remote u] by (simp add: strict_prefix_def)
  also have "prefix \<dots> (conversation_history (turns remote us (snd (start_process remote u s))))"
    by (rule Cons.IH)
  finally show ?case by simp
qed

lemma process_input_generator:
  assumes "generator st = Some g"
  shows "\<exists>g'. generator (snd (process_input remote st)) = Some g' \<and>
              prefix (conversation_history g) (conversation_history g')"
proof (cases "chat_log st")
  case None
  with assms show ?thesis by (simp add: process_input_def)
next
  case entries: (Some entries)
  show ?thesis
  proof (cases "user_input st")
    case None
    with assms entries show ?thesis by (simp add: process_input_def)
  next
    case (Some u)
    have "prefix (conversation_history g) (conversation_history (snd (start_process remote u g)))"
      using start_process_prefix [of g remote u] by (simp add: strict_prefix_def)
    with assms entries Some show ?thesis
      by (cases "fst (start_process remote u g)") (simp_all add: process_input_def split_beta)
  qed
qed

lemma submit_generator:
  assumes "generator st = Some g"
  shows "\<exists>g'. generator (snd (submit remote st)) = Some g' \<and>
              prefix (conversation_history g) (conversation_history g')"
proof (cases "widget st")
  case None
  with assms show ?thesis by (simp add: submit_def)
next
  case (Some w)
  have "generator (st\<lparr>user_input := Some w, widget := Some []\<rparr>) = Some g"
    using assms by simp
  from process_input_generator [OF this, of remote] Some show ?thesis
    by (simp add: submit_def)
qed

text \<open>
  C7. \<^verbatim>\<open>_add_conversation_history\<close> makes the history one entry longer, the new entry
  is the given text, unchanged, at the end, and the entries that were there are the same
  and in the same places. Every other operation on a session reaches the history through
  it only: after a completion call the old history is a prefix of the new one, after a
  turn it is a proper prefix, after any sequence of turns a prefix; and the interface's
  \<^verbatim>\<open>process_input\<close> and \<^verbatim>\<open>submit\<close> leave a generator in place whose history extends
  the one before.
\<close>

theorem append_only:
  "conversation_history (add_conversation_history t s) = conversation_history s @ [t] \<and>
   length (conversation_history (add_conversation_history t s)) =
     Suc (length (conversation_history s)) \<and>
   last (conversation_history (add_conversation_history t s)) = t \<and>
   take (length (conversation_history s)) (conversation_history (add_conversation_history t s)) =
     conversation_history s \<and>
   prefix (conversation_history s) (conversation_history (snd (get_questions remote mdl s))) \<and>
   strict_prefix (conversation_history s) (conversation_history (snd (start_process remote u s))) \<and>
   prefix (conversation_history s) (conversation_history (turns remote us s)) \<and>
   (case generator (snd (process_input remote (st\<lparr>generator := Some s\<rparr>))) of
      None \<Rightarrow> False
    | Some s' \<Rightarrow> prefix (conversation_history s) (conversation_history s')) \<and>
   (case generator (snd (submit remote (st\<lparr>generator := Some s\<rparr>))) of
      None \<Rightarrow> False
    | Some s' \<Rightarrow> prefix (conversation_history s) (conversation_history s'))"
proof -
  have g: "generator (st\<lparr>generator := Some s\<rparr>) = Some s"
    by simp
  have p: "case generator (snd (process_input remote (st\<lparr>generator := Some s\<rparr>))) of
      None \<Rightarrow> False
    | Some s' \<Rightarrow> prefix (conversation_history s) (conversation_history s')"
    using process_input_generator [OF g, of remote] by auto
  have q: "case generator (snd (submit remote (st\<lparr>generator := Some s\<rparr>))) of
      None \<Rightarrow> False
    | Some s' \<Rightarrow> prefix (conversation_history s) (conversation_history s')"
    using submit_generator [OF g, of remote] by auto
  have a: "conversation_history (add_conversation_history t s) = conversation_history s @ [t]"
    by (simp add: add_conversation_history_def)
  show ?thesis
    using p q by (simp add: a get_questions_prefix start_process_prefix turns_prefix)
qed

section \<open>Rendering the history\<close>


lemma join_Cons: "join sep (x # xs) = x @ concat (map (\<lambda>t. sep @ t) xs)"
  by (induction sep xs arbitrary: x rule: join.induct) simp_all








section \<open>The header stays in front\<close>

lemma QuestionsGenerator_history:
  "QuestionsGenerator e sid = Inr s0 \<Longrightarrow>
   conversation_history s0 = [history_header] \<and> sent (client s0) = []"
  by (auto simp add: QuestionsGenerator_def OpenAI_def split: sum.splits option.splits)

lemma turns_history:
  "conversation_history (turns remote us s) =
     conversation_history s @ concat (map2 appended us (results remote us s))"
  by (induction us arbitrary: s) (simp_all add: start_process_history)

lemma length_appended: "length (appended u r) = (if isl r then 1 else 2)"
  by (cases r) simp_all

lemma length_turns_appended:
  "length (concat (map2 appended us (results remote us s))) =
     length us + length (filter (\<lambda>r. \<not> isl r) (results remote us s))"
  by (induction us arbitrary: s) (simp_all add: length_appended)

lemma turns_sent_length:
  "length (sent (client (turns remote us s))) = length (sent (client s)) + length us"
  by (induction us arbitrary: s) (simp_all add: start_process_sent)

lemma rendered_header:
  "prefix (history_header @ [NL]) (join [NL] ((history_header # ts) @ [u]))"
  by (cases ts) (simp_all add: join_Cons)

lemma turns_sent:
  assumes "conversation_history s = history_header # ts"
    and "req \<in> set (sent (client (turns remote us s)))"
  shows "req \<in> set (sent (client s)) \<or>
         (length (messages req) = 2 \<and>
          role (messages req ! 0) = ''system'' \<and>
          content (messages req ! 0) = system_prompt_template s \<and>
          role (messages req ! 1) = ''user'' \<and>
          prefix (history_header @ [NL]) (content (messages req ! 1)))"
  using assms
proof (induction us arbitrary: s ts)
  case Nil
  then show ?case by simp
next
  case (Cons u us)
  let ?s' = "snd (start_process remote u s)"
  have h: "conversation_history ?s' = history_header # (ts @ appended u (fst (start_process remote u s)))"
    by (simp add: start_process_history Cons.prems(1))
  from Cons.prems(2) have "req \<in> set (sent (client (turns remote us ?s')))"
    by simp
  from Cons.IH [OF h this]
  show ?case
  proof
    assume "req \<in> set (sent (client ?s'))"
    then have "req \<in> set (sent (client s)) \<or>
        req = \<lparr>model = ''gpt-4o'',
               messages = [\<lparr>role = ''system'', content = system_prompt_template s\<rparr>,
                           \<lparr>role = ''user'', content = join [NL] (conversation_history s @ [u])\<rparr>],
               temperature = 6 / 10\<rparr>"
      by (auto simp add: start_process_sent)
    then show ?thesis
      using rendered_header [of ts u] by (auto simp add: Cons.prems(1))
  next
    assume "length (messages req) = 2 \<and>
          role (messages req ! 0) = ''system'' \<and>
          content (messages req ! 0) = system_prompt_template ?s' \<and>
          role (messages req ! 1) = ''user'' \<and>
          prefix (history_header @ [NL]) (content (messages req ! 1))"
    then show ?thesis
      by (simp add: start_process_fixed)
  qed
qed

text \<open>
  C10. A session as the constructor returns it has the history \<open>[history_header]\<close>, the
  header being the bytes of the line \<open># \<dots>AI\<dots>\<close> given in its definition. After any
  sequence of turns, whichever of them raised, the history is still that header followed
  by the texts the turns appended, in order: it is one longer than the number of appended
  texts, which is one for each turn plus one for each reply. Each turn has sent one
  request, and every request sent has two messages, the system instruction and a user
  message that begins with the header and a newline.
\<close>

theorem header_invariant:
  assumes "QuestionsGenerator e sid = Inr s0"
  shows "conversation_history s0 = [history_header] \<and>
         conversation_history (turns remote us s0) =
           history_header # concat (map2 appended us (results remote us s0)) \<and>
         length (conversation_history (turns remote us s0)) =
           1 + length (concat (map2 appended us (results remote us s0))) \<and>
         length (concat (map2 appended us (results remote us s0))) =
           length us + length (filter (\<lambda>r. \<not> isl r) (results remote us s0)) \<and>
         length (sent (client (turns remote us s0))) = length us \<and>
         (\<forall>req\<in>set (sent (client (turns remote us s0))).
            length (messages req) = 2 \<and>
            role (messages req ! 0) = ''system'' \<and>
            content (messages req ! 0) = system_prompt_template s0 \<and>
            role (messages req ! 1) = ''user'' \<and>
            prefix (history_header @ [NL]) (content (messages req ! 1)))"
proof -
  from assms have h0: "conversation_history s0 = [history_header]" and c0: "sent (client s0) = []"
    using QuestionsGenerator_history by blast+
  have h: "conversation_history (turns remote us s0) =
           history_header # concat (map2 appended us (results remote us s0))"
    by (simp add: turns_history h0)
  have n: "length (sent (client (turns remote us s0))) = length us"
    by (simp add: turns_sent_length c0)
  have r: "length (messages req) = 2 \<and>
            role (messages req ! 0) = ''system'' \<and>
            content (messages req ! 0) = system_prompt_template s0 \<and>
            role (messages req ! 1) = ''user'' \<and>
            prefix (history_header @ [NL]) (content (messages req ! 1))"
    if "req \<in> set (sent (client (turns remote us s0)))" for req
    using turns_sent [OF h0 that] by (simp add: c0)
  from h0 h n r show ?thesis
    by (simp add: length_turns_appended)
qed

theorem header_invariant_witness:
  "\<exists>s0. QuestionsGenerator example_env ''111403538'' = Inr s0 \<and>
        conversation_history s0 = [history_header] \<and>
        results (flaky ''Hello'') [trigger_phrase, ''Wang''] s0 =
          [Inl (APIError ''timeout''), Inr ''Hello''] \<and>
        conversation_history (turns (flaky ''Hello'') [trigger_phrase, ''Wang''] s0) =
          [history_header, trigger_phrase, ''Wang'', ''Hello''] \<and>
        length (conversation_history (turns (flaky ''Hello'') [trigger_phrase, ''Wang''] s0)) = 1 + 3 \<and>
        list_all (\<lambda>req. prefix (history_header @ [NL]) (content (messages req ! 1)))
          (sent (client (turns (flaky ''Hello'') [trigger_phrase, ''Wang''] s0)))"
proof -
  have f1: "midterm_files example_env (''midterm/'' @ ''111403538'' @ ''.json'') =
     Some (JSON [(''recursion'', ''weak'')])"
    by (simp add: example_env_def)
  have f2: "mygpt_files example_env (''mygpt/'' @ ''111403538'' @ ''.json'') =
     Some (JSON [(''loops'', [''why use a for-loop?'', ''what is an infinite loop?''])])"
    by (simp add: example_env_def)
  have f3: "environ example_env ''OPENAI_API_KEY'' = Some ''sk-example''"
    by (simp add: example_env_def)
  from QuestionsGenerator_loaded [OF f1 f2 f3]
  obtain s0 where s0: "QuestionsGenerator example_env ''111403538'' = Inr s0"
    by blast
  note r = header_invariant [OF s0, of "flaky ''Hello''" "[trigger_phrase, ''Wang'']"]
  from QuestionsGenerator_history [OF s0]
  have h0: "conversation_history s0 = [history_header]" and c0: "sent (client s0) = []"
    by simp_all
  have t1: "fst (start_process (flaky ''Hello'') trigger_phrase s0) = Inl (APIError ''timeout'')"
    by (simp add: start_process_def get_questions_def create_def Let_def flaky_def
        add_conversation_history_def c0)
  have c1: "length (sent (client (snd (start_process (flaky ''Hello'') trigger_phrase s0)))) = 1"
    by (simp add: start_process_sent c0)
  have t2: "fst (start_process (flaky ''Hello'') ''Wang''
              (snd (start_process (flaky ''Hello'') trigger_phrase s0))) = Inr ''Hello''"
    using c1
    by (simp add: start_process_def [of _ "''Wang''"] get_questions_def create_def Let_def flaky_def
        add_conversation_history_def)
  have res: "results (flaky ''Hello'') [trigger_phrase, ''Wang''] s0 =
          [Inl (APIError ''timeout''), Inr ''Hello'']"
    by (simp add: t1 t2)
  have a: "conversation_history (turns (flaky ''Hello'') [trigger_phrase, ''Wang''] s0) =
          [history_header, trigger_phrase, ''Wang'', ''Hello'']"
    using r by (simp add: t1 t2)
  have b: "length (conversation_history (turns (flaky ''Hello'') [trigger_phrase, ''Wang''] s0)) = 1 + 3"
    using r by (simp add: t1 t2)
  have c: "list_all (\<lambda>req. prefix (history_header @ [NL]) (content (messages req ! 1)))
          (sent (client (turns (flaky ''Hello'') [trigger_phrase, ''Wang''] s0)))"
    unfolding list_all_iff using r by blast
  from s0 h0 res a b c show ?thesis by blast
qed

section \<open>The first execution of the script\<close>

lemma process_input_reply:
  assumes "generator st = Some g" and "chat_log st = Some entries" and "user_input st = Some u"
    and "fst (start_process remote u g) = Inr reply"
  shows "process_input remote st =
           (Inr (), st\<lparr>chat_log := Some (entries @ [(you_label, u)] @ [(''AI'', reply)]),
                       generator := Some (snd (start_process remote u g)),
                       clear_input := Some True\<rparr>)"
  using assms by (simp add: process_input_def split_beta)

text \<open>
  C9. On the first execution of the script, with an empty session state and the button not
  pressed, and with the generator for student 111403538 constructed: the user input is
  set to the trigger phrase (the bytes of the four characters given in its definition) and
  \<^verbatim>\<open>process_input\<close>, the function every later turn goes through, is run on it. If the
  completion returns a reply, the lines written out are the seeded user line and then the
  reply, and the generator's history is the header, the phrase and the reply; running the
  script again without a click seeds nothing more and shows the same two lines. If the
  completion raises, the execution stops with that error, the log holding the seeded user
  line alone.
\<close>

theorem first_run_seeded:
  assumes "QuestionsGenerator e ''111403538'' = Inr g"
  shows "(fst (start_process remote trigger_phrase g) = Inr reply \<longrightarrow>
          script e remote False empty_state =
            (Inr [you_label @ '': '' @ trigger_phrase, ''AI: '' @ reply],
             \<lparr>generator = Some (snd (start_process remote trigger_phrase g)),
              chat_log = Some [(you_label, trigger_phrase), (''AI'', reply)],
              clear_input = Some True,
              user_input = Some trigger_phrase,
              widget = Some []\<rparr>) \<and>
          conversation_history (snd (start_process remote trigger_phrase g)) =
            [history_header, trigger_phrase, reply] \<and>
          script e' remote' False (snd (script e remote False empty_state)) =
            script e remote False empty_state) \<and>
         (fst (start_process remote trigger_phrase g) = Inl err \<longrightarrow>
          script e remote False empty_state =
            (Inl err,
             \<lparr>generator = Some (snd (start_process remote trigger_phrase g)),
              chat_log = Some [(you_label, trigger_phrase)],
              clear_input = Some False,
              user_input = Some trigger_phrase,
              widget = None\<rparr>) \<and>
          conversation_history (snd (start_process remote trigger_phrase g)) =
            [history_header, trigger_phrase])"
proof (intro conjI impI)
  let ?st3 = "\<lparr>generator = Some g, chat_log = Some [], clear_input = Some False,
               user_input = Some trigger_phrase, widget = None\<rparr>"
  from QuestionsGenerator_history [OF assms]
  have h0: "conversation_history g = [history_header]"
    by simp
  {
    assume ok: "fst (start_process remote trigger_phrase g) = Inr reply"
    have p: "process_input remote ?st3 =
               (Inr (), ?st3\<lparr>chat_log := Some ([] @ [(you_label, trigger_phrase)] @ [(''AI'', reply)]),
                             generator := Some (snd (start_process remote trigger_phrase g)),
                             clear_input := Some True\<rparr>)"
      by (rule process_input_reply [OF _ _ _ ok]) simp_all
    show first: "script e remote False empty_state =
            (Inr [you_label @ '': '' @ trigger_phrase, ''AI: '' @ reply],
             \<lparr>generator = Some (snd (start_process remote trigger_phrase g)),
              chat_log = Some [(you_label, trigger_phrase), (''AI'', reply)],
              clear_input = Some True,
              user_input = Some trigger_phrase,
              widget = Some []\<rparr>)"
      by (simp add: script_def empty_state_def assms p)
    show "conversation_history (snd (start_process remote trigger_phrase g)) =
            [history_header, trigger_phrase, reply]"
      by (simp add: start_process_history ok h0)
    show "script e' remote' False (snd (script e remote False empty_state)) =
            script e remote False empty_state"
      by (simp add: first) (simp add: script_def)
  }
  {
    assume bad: "fst (start_process remote trigger_phrase g) = Inl err"
    have p: "process_input remote ?st3 =
               (Inl err, ?st3\<lparr>chat_log := Some ([] @ [(you_label, trigger_phrase)]),
                              generator := Some (snd (start_process remote trigger_phrase g))\<rparr>)"
      by (rule process_input_raise [OF _ _ _ bad]) simp_all
    show "script e remote False empty_state =
            (Inl err,
             \<lparr>generator = Some (snd (start_process remote trigger_phrase g)),
              chat_log = Some [(you_label, trigger_phrase)],
              clear_input = Some False,
              user_input = Some trigger_phrase,
              widget = None\<rparr>)"
      by (simp add: script_def empty_state_def assms p)
    show "conversation_history (snd (start_process remote trigger_phrase g)) =
            [history_header, trigger_phrase]"
      by (simp add: start_process_history bad h0)
  }
qed

theorem first_run_seeded_witness:
  "\<exists>g. QuestionsGenerator example_env ''111403538'' = Inr g \<and>
       fst (start_process (answering ''Welcome'') trigger_phrase g) = Inr ''Welcome'' \<and>
       fst (script example_env (answering ''Welcome'') False empty_state) =
         Inr [you_label @ '': '' @ trigger_phrase, ''AI: Welcome''] \<and>
       chat_log (snd (script example_env (answering ''Welcome'') False empty_state)) =
         Some [(you_label, trigger_phrase), (''AI'', ''Welcome'')] \<and>
       fst (start_process (failing (APIError ''timeout'')) trigger_phrase g) =
         Inl (APIError ''timeout'') \<and>
       fst (script example_env (failing (APIError ''timeout'')) False empty_state) =
         Inl (APIError ''timeout'') \<and>
       chat_log (snd (script example_env (failing (APIError ''timeout'')) False empty_state)) =
         Some [(you_label, trigger_phrase)]"
proof -
  have f1: "midterm_files example_env (''midterm/'' @ ''111403538'' @ ''.json'') =
     Some (JSON [(''recursion'', ''weak'')])"
    by (simp add: example_env_def)
  have f2: "mygpt_files example_env (''mygpt/'' @ ''111403538'' @ ''.json'') =
     Some (JSON [(''loops'', [''why use a for-loop?'', ''what is an infinite loop?''])])"
    by (simp add: example_env_def)
  have f3: "environ example_env ''OPENAI_API_KEY'' = Some ''sk-example''"
    by (simp add: example_env_def)
  from QuestionsGenerator_loaded [OF f1 f2 f3]
  obtain g where g: "QuestionsGenerator example_env ''111403538'' = Inr g"
    by blast
  have ok: "fst (start_process (answering ''Welcome'') trigger_phrase g) = Inr ''Welcome''"
    by (simp add: start_process_def get_questions_def create_def Let_def answering_def)
  have bad: "fst (start_process (failing (APIError ''timeout'')) trigger_phrase g) =
         Inl (APIError ''timeout'')"
    by (simp add: start_process_def get_questions_def create_def Let_def failing_def)
  note r1 = first_run_seeded [OF g, where remote = "answering ''Welcome''" and reply = "''Welcome''",
      THEN conjunct1]
  note r2 = first_run_seeded [OF g, where remote = "failing (APIError ''timeout'')"
      and err = "APIError ''timeout''", THEN conjunct2]
  have a: "fst (script example_env (answering ''Welcome'') False empty_state) =
         Inr [you_label @ '': '' @ trigger_phrase, ''AI: Welcome'']"
    using r1 ok by simp
  have b: "chat_log (snd (script example_env (answering ''Welcome'') False empty_state)) =
         Some [(you_label, trigger_phrase), (''AI'', ''Welcome'')]"
    using r1 ok by simp
  have c: "fst (script example_env (failing (APIError ''timeout'')) False empty_state) =
         Inl (APIError ''timeout'')"
    using r2 bad by simp
  have d: "chat_log (snd (script example_env (failing (APIError ''timeout'')) False empty_state)) =
         Some [(you_label, trigger_phrase)]"
    using r2 bad by simp
  from g ok a b bad c d show ?thesis by blast
qed

end
